theory Spec2Isabelle
  imports Complex_Main
begin

section \<open>JavaScript numbers and the built-ins the calculators call\<close>

text \<open>
  A JavaScript number is an IEEE 754 double: a finite value, one of the two infinities,
  or \<open>NaN\<close>. A finite double is carried as the real number it stands for, and every
  operation rounds its exact result to the nearest double, as the language does. The
  sign of a zero is the one thing left out: both zeros are the real \<open>0\<close>.
\<close>

datatype jsnum = NaN | PosInf | NegInf | Fin real

definition pow2 :: "int \<Rightarrow> real" where
  "pow2 e = (if 0 \<le> e then 2 ^ nat e else 1 / 2 ^ nat (- e))"

definition pow10 :: "int \<Rightarrow> real" where
  "pow10 e = (if 0 \<le> e then 10 ^ nat e else 1 / 10 ^ nat (- e))"

text \<open>
  The binary exponent of a positive real \<open>a\<close>: the \<open>e\<close> with
  \<open>2 ^ e \<le> a < 2 ^ (e + 1)\<close>, searched from a guess in at most \<open>fuel\<close> steps.
\<close>

fun binary_exponent :: "nat \<Rightarrow> real \<Rightarrow> int \<Rightarrow> int" where
  "binary_exponent fuel a e =
     (if fuel = 0 then e
      else if pow2 (e + 1) \<le> a then binary_exponent (fuel - 1) a (e + 1)
      else if a < pow2 e then binary_exponent (fuel - 1) a (e - 1)
      else e)"

declare binary_exponent.simps [simp del]

text \<open>The nearest integer, a tie going to the even one.\<close>

definition round_half_even :: "real \<Rightarrow> int" where
  "round_half_even r =
     (let f = \<lfloor>r\<rfloor>; d = r - of_int f
      in if d < 1 / 2 then f else if 1 / 2 < d then f + 1 else if even f then f else f + 1)"

text \<open>
  The double nearest to a real, ties to even: 53 significant bits, the least exponent
  \<open>-1022\<close> (below it the spacing stays \<open>2 ^ -1074\<close>), and an infinity once the
  rounded magnitude reaches \<open>2 ^ 1024\<close>. The search of 1100 steps from exponent 0
  covers that whole range: a larger magnitude overflows and a smaller one is subnormal
  wherever the search stops.
\<close>

definition to_double :: "real \<Rightarrow> jsnum" where
  "to_double x =
     (if x = 0 then Fin 0
      else
        (let e = max (binary_exponent 1100 \<bar>x\<bar> 0) (- 1022);
             ulp = pow2 (e - 52);
             y = of_int (round_half_even (x / ulp)) * ulp
         in if pow2 1024 \<le> \<bar>y\<bar> then (if 0 < x then PosInf else NegInf) else Fin y))"

definition isNaN :: "jsnum \<Rightarrow> bool" where
  "isNaN x = (x = NaN)"

definition jssign :: "jsnum \<Rightarrow> int" where
  "jssign x = (case x of NaN \<Rightarrow> 0 | PosInf \<Rightarrow> 1 | NegInf \<Rightarrow> - 1
     | Fin a \<Rightarrow> (if a = 0 then 0 else if 0 < a then 1 else - 1))"

definition signed_inf :: "int \<Rightarrow> jsnum" where
  "signed_inf s = (if s = 0 then NaN else if 0 < s then PosInf else NegInf)"

text \<open>The operator \<open>*\<close> on numbers.\<close>

definition jsmul :: "jsnum \<Rightarrow> jsnum \<Rightarrow> jsnum" where
  "jsmul x y =
     (if x = NaN \<or> y = NaN then NaN
      else case (x, y) of
             (Fin a, Fin b) \<Rightarrow> to_double (a * b)
           | _ \<Rightarrow> signed_inf (jssign x * jssign y))"

text \<open>The operator \<open>/\<close> on numbers; a zero divisor is the positive zero.\<close>

definition jsdiv :: "jsnum \<Rightarrow> jsnum \<Rightarrow> jsnum" where
  "jsdiv x y =
     (if x = NaN \<or> y = NaN then NaN
      else case (x, y) of
             (Fin a, Fin b) \<Rightarrow> (if b = 0 then signed_inf (jssign x) else to_double (a / b))
           | (Fin a, _) \<Rightarrow> Fin 0
           | (_, Fin b) \<Rightarrow> signed_inf (jssign x * (if b < 0 then - 1 else 1))
           | _ \<Rightarrow> NaN)"

text \<open>
  \<open>Math.round\<close>: the nearest integer, a tie going up. The result is exact: it is an
  integer below \<open>2 ^ 53\<close> in magnitude, or the argument itself.
\<close>

definition Math_round :: "jsnum \<Rightarrow> jsnum" where
  "Math_round x = (case x of Fin a \<Rightarrow> Fin (of_int \<lfloor>a + 1 / 2\<rfloor>) | _ \<Rightarrow> x)"

subsection \<open>Numbers to strings\<close>

text \<open>
  A string is the list of its UTF-16 code units, each below 256 here: text with other
  code units is outside this model.
\<close>

fun digits_of :: "nat \<Rightarrow> string" where
  "digits_of n =
     (if n < 10 then [''0123456789'' ! n]
      else digits_of (n div 10) @ [''0123456789'' ! (n mod 10)])"

declare digits_of.simps [simp del]

text \<open>
  The decimal exponent of a positive real \<open>a\<close>: the \<open>n\<close> with
  \<open>10 ^ (n - 1) \<le> a < 10 ^ n\<close>.
\<close>

fun decimal_exponent :: "nat \<Rightarrow> real \<Rightarrow> int \<Rightarrow> int" where
  "decimal_exponent fuel a n =
     (if fuel = 0 then n
      else if pow10 n \<le> a then decimal_exponent (fuel - 1) a (n + 1)
      else if a < pow10 (n - 1) then decimal_exponent (fuel - 1) a (n - 1)
      else n)"

declare decimal_exponent.simps [simp del]

text \<open>
  The digits of a positive double \<open>a\<close> at a given length \<open>k\<close>: an integer \<open>s\<close> of
  \<open>k\<close> digits and an exponent \<open>n\<close> such that \<open>s * 10 ^ (n - k)\<close> reads back as
  \<open>a\<close>; of two such, the one nearer to \<open>a\<close>, and the even one when they are equally
  near. \<open>None\<close> when \<open>k\<close> digits are too few.
\<close>

definition digits_candidate :: "real \<Rightarrow> int \<Rightarrow> nat \<Rightarrow> (nat \<times> int) option" where
  "digits_candidate a n k =
     (let unit = pow10 (n - int k);
          lo = nat \<lfloor>a / unit\<rfloor>;
          hi = lo + 1;
          ok_lo = (to_double (of_nat lo * unit) = Fin a);
          ok_hi = (to_double (of_nat hi * unit) = Fin a);
          d_lo = a - of_nat lo * unit;
          d_hi = of_nat hi * unit - a;
          pick_hi = (ok_hi \<and> (\<not> ok_lo \<or> d_hi < d_lo \<or> (d_hi = d_lo \<and> even hi)))
      in if pick_hi then (if hi = 10 ^ k then Some (10 ^ (k - 1), n + 1) else Some (hi, n))
         else if ok_lo then Some (lo, n)
         else None)"

text \<open>The shortest digits: lengths are tried from \<open>k\<close> upwards, seventeen at most.\<close>

fun shortest_digits :: "nat \<Rightarrow> real \<Rightarrow> int \<Rightarrow> nat \<Rightarrow> nat \<times> int \<times> nat" where
  "shortest_digits fuel a n k =
     (case digits_candidate a n k of
        Some (s, n') \<Rightarrow> (s, n', k)
      | None \<Rightarrow>
          if fuel = 0 then (nat \<lfloor>a / pow10 (n - int k)\<rfloor>, n, k)
          else shortest_digits (fuel - 1) a n (k + 1))"

declare shortest_digits.simps [simp del]

text \<open>
  The text of the digits \<open>s\<close> (there are \<open>k\<close> of them) with the exponent \<open>n\<close>:
  plain up to twenty-one integer digits, with leading zeros down to \<open>10 ^ -6\<close>, in
  exponent form beyond.
\<close>

definition format_digits :: "nat \<times> int \<times> nat \<Rightarrow> string" where
  "format_digits snk =
     (case snk of (s, n, k) \<Rightarrow>
        (let ds = digits_of s
         in if int k \<le> n \<and> n \<le> 21 then ds @ replicate (nat (n - int k)) CHR ''0''
            else if 0 < n \<and> n \<le> 21 then take (nat n) ds @ ''.'' @ drop (nat n) ds
            else if - 6 < n \<and> n \<le> 0 then ''0.'' @ replicate (nat (- n)) CHR ''0'' @ ds
            else
              (let e = n - 1;
                   et = (if 0 \<le> e then ''+'' else ''-'') @ digits_of (nat \<bar>e\<bar>)
               in if k = 1 then ds @ ''e'' @ et
                  else take 1 ds @ ''.'' @ drop 1 ds @ ''e'' @ et)))"

text \<open>\<open>Number.prototype.toString\<close>: the shortest digits that read back as the number.\<close>

definition js_to_string :: "jsnum \<Rightarrow> string" where
  "js_to_string x =
     (case x of
        NaN \<Rightarrow> ''NaN''
      | PosInf \<Rightarrow> ''Infinity''
      | NegInf \<Rightarrow> ''-Infinity''
      | Fin r \<Rightarrow>
          if r = 0 then ''0''
          else (if r < 0 then ''-'' else [])
                 @ format_digits (shortest_digits 16 \<bar>r\<bar> (decimal_exponent 400 \<bar>r\<bar> 0) 1))"

text \<open>
  \<open>Number.prototype.toFixed(2)\<close>: the integer \<open>n\<close> with \<open>n / 100\<close> nearest to the
  exact magnitude (the larger one on a tie), written with two fraction digits, after the
  sign; from \<open>10 ^ 21\<close> on, the text \<open>toString\<close> gives.
\<close>

definition toFixed2 :: "jsnum \<Rightarrow> string" where
  "toFixed2 x =
     (case x of
        NaN \<Rightarrow> ''NaN''
      | PosInf \<Rightarrow> ''Infinity''
      | NegInf \<Rightarrow> ''-Infinity''
      | Fin r \<Rightarrow>
          if 10 ^ 21 \<le> \<bar>r\<bar> then js_to_string x
          else
            (let n = nat \<lfloor>\<bar>r\<bar> * 100 + 1 / 2\<rfloor>
             in (if r < 0 then ''-'' else []) @ digits_of (n div 100) @ ''.''
                @ [''0123456789'' ! (n mod 100 div 10), ''0123456789'' ! (n mod 10)]))"

subsection \<open>Strings to numbers\<close>

definition is_space :: "char \<Rightarrow> bool" where
  "is_space c = (c \<in> set [CHR '' '', CHR 0x09, CHR 0x0A, CHR 0x0B, CHR 0x0C, CHR 0x0D, CHR 0xA0])"

definition is_digit :: "char \<Rightarrow> bool" where
  "is_digit c = (c \<in> set ''0123456789'')"

definition digit_val :: "char \<Rightarrow> nat" where
  "digit_val c = of_char c - 48"

definition digits_val :: "string \<Rightarrow> nat" where
  "digits_val ds = foldl (\<lambda>a c. 10 * a + digit_val c) 0 ds"

text \<open>The exponent part of a decimal literal; \<open>0\<close> when the text has none.\<close>

definition exponent_part :: "string \<Rightarrow> int" where
  "exponent_part s =
     (case s of
        [] \<Rightarrow> 0
      | c # r \<Rightarrow>
          if c = CHR ''e'' \<or> c = CHR ''E'' then
            (let (neg, u) = (case r of
                               [] \<Rightarrow> (False, [])
                             | d # v \<Rightarrow> if d = CHR ''-'' then (True, v)
                                        else if d = CHR ''+'' then (False, v) else (False, r));
                 ds = takeWhile is_digit u
             in if ds = [] then 0
                else if neg then - int (digits_val ds) else int (digits_val ds))
          else 0)"

text \<open>
  \<open>Number.parseFloat\<close>: leading white space is skipped, the longest prefix that is a
  decimal literal is read, and the rest is ignored; no such prefix gives \<open>NaN\<close>. The
  result is the double nearest to the value the literal writes.
\<close>

definition parseFloat :: "string \<Rightarrow> jsnum" where
  "parseFloat s =
     (let t = dropWhile is_space s;
          (neg, u) = (case t of
                        [] \<Rightarrow> (False, [])
                      | c # r \<Rightarrow> if c = CHR ''-'' then (True, r)
                                 else if c = CHR ''+'' then (False, r) else (False, t))
      in if take 8 u = ''Infinity'' then (if neg then NegInf else PosInf)
         else
           (let ip = takeWhile is_digit u;
                r1 = dropWhile is_digit u;
                (fp, r2) = (case r1 of
                              [] \<Rightarrow> ([], [])
                            | c # r \<Rightarrow> if c = CHR ''.''
                                       then (takeWhile is_digit r, dropWhile is_digit r)
                                       else ([], r1))
            in if ip = [] \<and> fp = [] then NaN
               else
                 (let m = of_nat (digits_val (ip @ fp))
                            * pow10 (exponent_part r2 - int (length fp))
                  in to_double (if neg then - m else m))))"


section \<open>The product form: quantity from dimensions\<close>

text \<open>
  The fields of the form that the quantity calculation reads and writes, with the
  component state it sets. An optional text field is \<open>None\<close> while it is undefined.
\<close>

record product_form =
  sizeLength :: "string option"
  sizeHeight :: "string option"
  sizeUnit :: string
  numberOfPieces :: "string option"
  quantityAvailable :: string
  autoCalculateQuantity :: bool
  sizeParseError :: "string option"
  calculationPreview :: "string option"

text \<open>\<open>!v\<close> on an optional string: undefined and the empty string are falsy.\<close>

definition falsy :: "string option \<Rightarrow> bool" where
  "falsy v = (v = None \<or> v = Some [])"

definition text_of :: "string option \<Rightarrow> string" where
  "text_of v = (case v of None \<Rightarrow> [] | Some s \<Rightarrow> s)"

definition times_sign :: char where
  "times_sign = CHR 0xD7"

definition division_sign :: char where
  "division_sign = CHR 0xF7"

text \<open>
  The template literal both calculators build:
  \<open>(l \<times> h \<times> p) \<div> d = q sqft\<close>, the divisor and the quantity given as text.
\<close>

definition formula_text :: "jsnum \<Rightarrow> jsnum \<Rightarrow> jsnum \<Rightarrow> string \<Rightarrow> string \<Rightarrow> string" where
  "formula_text len hgt pieces divisor quantity =
     ''('' @ js_to_string len @ '' '' @ [times_sign] @ '' '' @ js_to_string hgt
       @ '' '' @ [times_sign] @ '' '' @ js_to_string pieces @ '') '' @ [division_sign]
       @ '' '' @ divisor @ '' = '' @ quantity @ '' sqft''"

text \<open>
  The arithmetic of the effect: the quantity and its formula by unit, then the
  quantity rounded to two decimal places.
\<close>

definition calculate_quantity :: "jsnum \<Rightarrow> jsnum \<Rightarrow> jsnum \<Rightarrow> string \<Rightarrow> jsnum \<times> string" where
  "calculate_quantity len hgt pieces unit =
     (let (calculatedQuantity, formula) =
            (if unit = ''in''
             then (let q = jsdiv (jsmul (jsmul len hgt) pieces) (Fin 144)
                   in (q, formula_text len hgt pieces ''144'' (toFixed2 q)))
             else (let q = jsdiv (jsmul (jsmul len hgt) pieces) (Fin 929)
                   in (q, formula_text len hgt pieces ''929'' (toFixed2 q))))
      in (jsdiv (Math_round (jsmul calculatedQuantity (Fin 100))) (Fin 100), formula))"

text \<open>
  The effect that runs whenever a dimension field, the unit, the piece count or the
  auto-calculate switch changes.
\<close>

definition quantity_effect :: "product_form \<Rightarrow> product_form" where
  "quantity_effect st =
     (if \<not> autoCalculateQuantity st then st\<lparr>calculationPreview := None\<rparr>
      else if falsy (sizeLength st) \<or> falsy (sizeHeight st) \<or> falsy (numberOfPieces st)
      then st\<lparr>sizeParseError := None, calculationPreview := None\<rparr>
      else
        (let len = parseFloat (text_of (sizeLength st));
             hgt = parseFloat (text_of (sizeHeight st));
             pieces = parseFloat (text_of (numberOfPieces st))
         in if isNaN len \<or> isNaN hgt \<or> isNaN pieces
            then st\<lparr>sizeParseError := Some ''Please enter valid numbers for size and pieces'',
                     calculationPreview := None\<rparr>
            else
              (let (calculatedQuantity, formula) =
                     calculate_quantity len hgt pieces (sizeUnit st)
               in st\<lparr>sizeParseError := None,
                      quantityAvailable := js_to_string calculatedQuantity,
                      calculationPreview := Some formula\<rparr>)))"

text \<open>
  Rounding a real to two decimal places, as the specification writes it: the nearest
  hundredth, a tie going up.
\<close>

definition round_to_2 :: "real \<Rightarrow> real" where
  "round_to_2 x = of_int (round (x * 100)) / 100"

text \<open>A number that is not negative: a finite one from zero up, or the positive infinity.\<close>

definition not_negative :: "jsnum \<Rightarrow> bool" where
  "not_negative x = (case x of Fin a \<Rightarrow> 0 \<le> a | PosInf \<Rightarrow> True | _ \<Rightarrow> False)"

text \<open>A form filled in with the four inputs, auto-calculation switched on.\<close>

definition sample_form :: "string \<Rightarrow> string \<Rightarrow> string \<Rightarrow> string \<Rightarrow> product_form" where
  "sample_form ls hs unit ps =
     \<lparr>sizeLength = Some ls, sizeHeight = Some hs, sizeUnit = unit, numberOfPieces = Some ps,
      quantityAvailable = [], autoCalculateQuantity = True, sizeParseError = None,
      calculationPreview = None\<rparr>"

section \<open>The product detail page: the quantity formula recomputed\<close>

text \<open>A number of the size pattern, \<open>\d+(?:\.\d+)?\<close>, read at the front of a text.\<close>

definition size_number :: "string \<Rightarrow> (string \<times> string) option" where
  "size_number s =
     (let ip = takeWhile is_digit s; r = dropWhile is_digit s
      in if ip = [] then None
         else (case r of
                 [] \<Rightarrow> Some (ip, r)
               | c # r' \<Rightarrow>
                   if c = CHR ''.'' \<and> takeWhile is_digit r' \<noteq> []
                   then Some (ip @ ''.'' @ takeWhile is_digit r', dropWhile is_digit r')
                   else Some (ip, r)))"

text \<open>The whole pattern \<open>^(\d+(?:\.\d+)?)[x*-](\d+(?:\.\d+)?)$\<close>: its two groups.\<close>

definition match_size :: "string \<Rightarrow> (string \<times> string) option" where
  "match_size s =
     (case size_number s of
        None \<Rightarrow> None
      | Some (m1, r) \<Rightarrow>
          (case r of
             [] \<Rightarrow> None
           | c # r' \<Rightarrow>
               if c = CHR ''x'' \<or> c = CHR ''*'' \<or> c = CHR ''-''
               then (case size_number r' of
                       None \<Rightarrow> None
                     | Some (m2, r'') \<Rightarrow> if r'' = [] then Some (m1, m2) else None)
               else None))"

text \<open>\<open>!n\<close> on a number: zero and \<open>NaN\<close> are falsy.\<close>

definition falsy_num :: "jsnum \<Rightarrow> bool" where
  "falsy_num n = (n = NaN \<or> n = Fin 0)"

definition calculateQuantityFormula :: "string \<Rightarrow> string \<Rightarrow> jsnum \<Rightarrow> string option" where
  "calculateQuantityFormula size_text unit pieces =
     (if size_text = [] \<or> falsy_num pieces then None
      else case match_size (filter (\<lambda>c. \<not> is_space c) size_text) of
             None \<Rightarrow> None
           | Some (m1, m2) \<Rightarrow>
               (let len = parseFloat m1; hgt = parseFloat m2
                in if unit = ''inches''
                   then Some (formula_text len hgt pieces ''144''
                          (toFixed2 (jsdiv (jsmul (jsmul len hgt) pieces) (Fin 144))))
                   else Some (formula_text len hgt pieces ''929''
                          (toFixed2 (jsdiv (jsmul (jsmul len hgt) pieces) (Fin 929))))))"


section \<open>The product visualizer: bookmatched textures on a canvas\<close>

text \<open>
  What one \<open>drawImage\<close> call leaves on the canvas: the rectangle it covers, in canvas
  pixels, and whether the source appears mirrored on each axis.
\<close>

record tile =
  tile_x :: int
  tile_y :: int
  tile_w :: int
  tile_h :: int
  flipped_x :: bool
  flipped_y :: bool

text \<open>
  A canvas with its 2D context: the size, the current transform (a scale and a shift
  on each axis, which is all the compositor uses), the stack of saved transforms and
  the images drawn so far.
\<close>

record canvas =
  canvas_width :: int
  canvas_height :: int
  scale_x :: int
  scale_y :: int
  shift_x :: int
  shift_y :: int
  saved :: "(int \<times> int \<times> int \<times> int) list"
  drawn :: "tile list"

definition createCanvas :: canvas where
  "createCanvas = \<lparr>canvas_width = 300, canvas_height = 150, scale_x = 1, scale_y = 1,
     shift_x = 0, shift_y = 0, saved = [], drawn = []\<rparr>"

definition set_size :: "int \<Rightarrow> int \<Rightarrow> canvas \<Rightarrow> canvas" where
  "set_size w h c = c\<lparr>canvas_width := w, canvas_height := h\<rparr>"

text \<open>\<open>setTransform(a, 0, 0, d, e, f)\<close>.\<close>

definition ctx_setTransform :: "int \<Rightarrow> int \<Rightarrow> int \<Rightarrow> int \<Rightarrow> canvas \<Rightarrow> canvas" where
  "ctx_setTransform a d e f c = c\<lparr>scale_x := a, scale_y := d, shift_x := e, shift_y := f\<rparr>"

definition ctx_save :: "canvas \<Rightarrow> canvas" where
  "ctx_save c = c\<lparr>saved := (scale_x c, scale_y c, shift_x c, shift_y c) # saved c\<rparr>"

definition ctx_restore :: "canvas \<Rightarrow> canvas" where
  "ctx_restore c =
     (case saved c of
        [] \<Rightarrow> c
      | (a, d, e, f) # rest \<Rightarrow>
          c\<lparr>scale_x := a, scale_y := d, shift_x := e, shift_y := f, saved := rest\<rparr>)"

definition ctx_translate :: "int \<Rightarrow> int \<Rightarrow> canvas \<Rightarrow> canvas" where
  "ctx_translate dx dy c =
     c\<lparr>shift_x := shift_x c + scale_x c * dx, shift_y := shift_y c + scale_y c * dy\<rparr>"

definition ctx_scale :: "int \<Rightarrow> int \<Rightarrow> canvas \<Rightarrow> canvas" where
  "ctx_scale a d c = c\<lparr>scale_x := scale_x c * a, scale_y := scale_y c * d\<rparr>"

text \<open>\<open>drawImage(img, dx, dy, dw, dh)\<close> under the current transform.\<close>

definition ctx_drawImage :: "int \<Rightarrow> int \<Rightarrow> int \<Rightarrow> int \<Rightarrow> canvas \<Rightarrow> canvas" where
  "ctx_drawImage dx dy dw dh c =
     (let x0 = scale_x c * dx + shift_x c; x1 = scale_x c * (dx + dw) + shift_x c;
          y0 = scale_y c * dy + shift_y c; y1 = scale_y c * (dy + dh) + shift_y c
      in c\<lparr>drawn := drawn c @
            [\<lparr>tile_x = min x0 x1, tile_y = min y0 y1, tile_w = \<bar>x1 - x0\<bar>, tile_h = \<bar>y1 - y0\<bar>,
              flipped_x = (scale_x c < 0), flipped_y = (scale_y c < 0)\<rparr>]\<rparr>)"

text \<open>The branch for the two exact sizes: a two by two grid of mirrored copies.\<close>

definition draw_exact_square :: "int \<Rightarrow> int \<Rightarrow> canvas \<Rightarrow> canvas" where
  "draw_exact_square originalWidth originalHeight c0 =
     (let c = set_size (originalWidth * 2) (originalHeight * 2) c0;
          c = ctx_setTransform 1 1 0 0 c;
          c = ctx_drawImage 0 0 originalWidth originalHeight c;
          c = ctx_save c;
          c = ctx_translate (canvas_width c) 0 c;
          c = ctx_scale (- 1) 1 c;
          c = ctx_drawImage 0 0 originalWidth originalHeight c;
          c = ctx_restore c;
          c = ctx_save c;
          c = ctx_translate 0 (canvas_height c) c;
          c = ctx_scale 1 (- 1) c;
          c = ctx_drawImage 0 0 originalWidth originalHeight c;
          c = ctx_restore c;
          c = ctx_save c;
          c = ctx_translate (canvas_width c) (canvas_height c) c;
          c = ctx_scale (- 1) (- 1) c;
          c = ctx_drawImage 0 0 originalWidth originalHeight c
      in ctx_restore c)"

text \<open>The loop body of the branch for the other nearly square images.\<close>

definition nearly_square_cell :: "int \<Rightarrow> int \<Rightarrow> nat \<Rightarrow> nat \<Rightarrow> canvas \<Rightarrow> canvas" where
  "nearly_square_cell originalWidth originalHeight y x c0 =
     (let flipX = (x mod 2 = 1);
          flipY = (y mod 2 = 1);
          c = ctx_save c0;
          posX = int x * originalWidth;
          posY = int y * originalHeight;
          c = ctx_translate (posX + (if flipX then originalWidth else 0))
                (posY + (if flipY then originalHeight else 0)) c;
          c = ctx_scale (if flipX then - 1 else 1) (if flipY then - 1 else 1) c;
          c = ctx_drawImage 0 0 originalWidth originalHeight c
      in ctx_restore c)"

definition draw_nearly_square :: "int \<Rightarrow> int \<Rightarrow> canvas \<Rightarrow> canvas" where
  "draw_nearly_square originalWidth originalHeight c0 =
     (let multiplier = 4;
          c = set_size (originalWidth * int multiplier) (originalHeight * int multiplier) c0
      in fold (\<lambda>y. fold (nearly_square_cell originalWidth originalHeight y) [0..<multiplier])
           [0..<multiplier] c)"

text \<open>The loop body of the branch for the images that are not square.\<close>

definition non_square_cell :: "int \<Rightarrow> int \<Rightarrow> nat \<Rightarrow> nat \<Rightarrow> canvas \<Rightarrow> canvas" where
  "non_square_cell originalWidth originalHeight y x c0 =
     (let flipHorizontal = (x mod 2 = 1);
          flipVertical = (y mod 2 = 1);
          c = ctx_save c0;
          posX = int x * originalWidth;
          posY = int y * originalHeight;
          c = (if flipHorizontal \<and> flipVertical then
                 ctx_drawImage 0 0 originalWidth originalHeight
                   (ctx_scale (- 1) (- 1)
                     (ctx_translate (posX + originalWidth) (posY + originalHeight) c))
               else if flipHorizontal then
                 ctx_drawImage 0 0 originalWidth originalHeight
                   (ctx_scale (- 1) 1 (ctx_translate (posX + originalWidth) posY c))
               else if flipVertical then
                 ctx_drawImage 0 0 originalWidth originalHeight
                   (ctx_scale 1 (- 1) (ctx_translate posX (posY + originalHeight) c))
               else ctx_drawImage posX posY originalWidth originalHeight c)
      in ctx_restore c)"

definition draw_non_square :: "int \<Rightarrow> int \<Rightarrow> canvas \<Rightarrow> canvas" where
  "draw_non_square originalWidth originalHeight c0 =
     (let gridSize = 4;
          c = set_size (originalWidth * int gridSize) (originalHeight * int gridSize) c0
      in fold (\<lambda>y. fold (non_square_cell originalWidth originalHeight y) [0..<gridSize])
           [0..<gridSize] c)"

text \<open>
  The texture the component keeps: the PNG data URL of a composed canvas, or the URL of
  an image as it is.
\<close>

datatype texture = DataURL canvas | SourceUrl string

record visualizer =
  bookmatchedTexture :: "texture option"
  textureReady :: bool
  backgroundSize :: string
  backgroundPosition :: string

definition initial_visualizer :: visualizer where
  "initial_visualizer = \<lparr>bookmatchedTexture = None, textureReady = False,
     backgroundSize = ''400px 400px'', backgroundPosition = ''center''\<rparr>"

text \<open>Truthiness of the texture reference: null and the empty string are falsy.\<close>

definition texture_present :: "texture option \<Rightarrow> bool" where
  "texture_present t =
     (case t of None \<Rightarrow> False | Some (DataURL c) \<Rightarrow> True | Some (SourceUrl u) \<Rightarrow> u \<noteq> [])"

text \<open>How the load of an image element ends: with the image's size, or with an error.\<close>

datatype load_event = Loaded nat nat | LoadError

definition double_px :: "int \<Rightarrow> int \<Rightarrow> string" where
  "double_px originalWidth originalHeight =
     js_to_string (Fin (of_int (originalWidth * 2))) @ ''px ''
       @ js_to_string (Fin (of_int (originalHeight * 2))) @ ''px''"

text \<open>The handler \<open>img.onload\<close>; \<open>has_ctx\<close> tells whether the canvas gave a context.\<close>

definition img_onload :: "bool \<Rightarrow> nat \<Rightarrow> nat \<Rightarrow> visualizer \<Rightarrow> visualizer" where
  "img_onload has_ctx img_width img_height st =
     (if \<not> has_ctx then st
      else
        (let originalWidth = int img_width;
             originalHeight = int img_height;
             isExactSquare488 = (originalWidth = 488 \<and> originalHeight = 488);
             isExactSquare646 = (originalWidth = 646 \<and> originalHeight = 646);
             isNearlySquare = (\<bar>originalWidth - originalHeight\<bar> < 20);
             (c, size_text, position) =
               (if isExactSquare488 \<or> isExactSquare646 then
                  (draw_exact_square originalWidth originalHeight createCanvas,
                   double_px originalWidth originalHeight, ''center'')
                else if isNearlySquare then
                  (draw_nearly_square originalWidth originalHeight createCanvas,
                   double_px originalWidth originalHeight, ''center'')
                else
                  (draw_non_square originalWidth originalHeight createCanvas,
                   double_px originalWidth originalHeight, ''center''))
         in st\<lparr>backgroundSize := size_text, backgroundPosition := position,
                bookmatchedTexture := Some (DataURL c), textureReady := True\<rparr>))"

text \<open>The handler \<open>img.onerror\<close>.\<close>

definition img_onerror :: "string \<Rightarrow> visualizer \<Rightarrow> visualizer" where
  "img_onerror imageUrl st = st\<lparr>bookmatchedTexture := Some (SourceUrl imageUrl), textureReady := True\<rparr>"

text \<open>The address the image element is given: remote images go through the proxy.\<close>

definition image_src :: "(string \<Rightarrow> string) \<Rightarrow> string \<Rightarrow> string" where
  "image_src encodeURIComponent imageUrl =
     (if take 4 imageUrl = ''http'' then ''/api/proxy-image?url='' @ encodeURIComponent imageUrl
      else imageUrl)"

text \<open>
  \<open>createBookmatchedTexture\<close> with the handler that runs once the load has ended.
  The environment is \<open>load\<close>, the fate of the load of each address, with \<open>has_ctx\<close>
  and the library function \<open>encodeURIComponent\<close>.
\<close>

definition createBookmatchedTexture ::
  "(string \<Rightarrow> string) \<Rightarrow> (string \<Rightarrow> load_event) \<Rightarrow> bool \<Rightarrow> string \<Rightarrow> visualizer \<Rightarrow> visualizer" where
  "createBookmatchedTexture encodeURIComponent load has_ctx imageUrl st =
     (if texture_present (bookmatchedTexture st) then st\<lparr>textureReady := True\<rparr>
      else case load (image_src encodeURIComponent imageUrl) of
             Loaded w h \<Rightarrow> img_onload has_ctx w h st
           | LoadError \<Rightarrow> img_onerror imageUrl st)"

text \<open>The sixteen cells of a four by four grid, row by row, each with its parity flips.\<close>

definition parity_grid :: "int \<Rightarrow> int \<Rightarrow> tile list" where
  "parity_grid w h =
     concat (map (\<lambda>y. map (\<lambda>x. \<lparr>tile_x = int x * w, tile_y = int y * h, tile_w = w, tile_h = h,
                                 flipped_x = odd x, flipped_y = odd y\<rparr>) [0..<4]) [0..<4])"

text \<open>The four quadrants of the two by two grid: source, mirrors on one axis, on both.\<close>

definition quadrants :: "int \<Rightarrow> int \<Rightarrow> tile list" where
  "quadrants w h =
     [\<lparr>tile_x = 0, tile_y = 0, tile_w = w, tile_h = h, flipped_x = False, flipped_y = False\<rparr>,
      \<lparr>tile_x = w, tile_y = 0, tile_w = w, tile_h = h, flipped_x = True, flipped_y = False\<rparr>,
      \<lparr>tile_x = 0, tile_y = h, tile_w = w, tile_h = h, flipped_x = False, flipped_y = True\<rparr>,
      \<lparr>tile_x = w, tile_y = h, tile_w = w, tile_h = h, flipped_x = True, flipped_y = True\<rparr>]"


section \<open>QR cards: the product name under the code\<close>

text \<open>
  \<open>toUpperCase\<close> and \<open>toLowerCase\<close> on one code unit below 256: the letters
  \<open>a\<close> to \<open>z\<close> and the accented letters \<open>0xE0\<close> to \<open>0xFE\<close> (the division
  sign apart) have their capitals 32 places lower, and the sharp s becomes \<open>SS\<close>.
  The capitals of the micro sign and of \<open>0xFF\<close> lie beyond 255; they are left as
  they are here.
\<close>

definition small_letters :: string where
  "small_letters = ''abcdefghijklmnopqrstuvwxyz''
     @ [CHR 0xE0, CHR 0xE1, CHR 0xE2, CHR 0xE3, CHR 0xE4, CHR 0xE5, CHR 0xE6, CHR 0xE7,
        CHR 0xE8, CHR 0xE9, CHR 0xEA, CHR 0xEB, CHR 0xEC, CHR 0xED, CHR 0xEE, CHR 0xEF,
        CHR 0xF0, CHR 0xF1, CHR 0xF2, CHR 0xF3, CHR 0xF4, CHR 0xF5, CHR 0xF6, CHR 0xF8,
        CHR 0xF9, CHR 0xFA, CHR 0xFB, CHR 0xFC, CHR 0xFD, CHR 0xFE]"

definition capital_letters :: string where
  "capital_letters = ''ABCDEFGHIJKLMNOPQRSTUVWXYZ''
     @ [CHR 0xC0, CHR 0xC1, CHR 0xC2, CHR 0xC3, CHR 0xC4, CHR 0xC5, CHR 0xC6, CHR 0xC7,
        CHR 0xC8, CHR 0xC9, CHR 0xCA, CHR 0xCB, CHR 0xCC, CHR 0xCD, CHR 0xCE, CHR 0xCF,
        CHR 0xD0, CHR 0xD1, CHR 0xD2, CHR 0xD3, CHR 0xD4, CHR 0xD5, CHR 0xD6, CHR 0xD8,
        CHR 0xD9, CHR 0xDA, CHR 0xDB, CHR 0xDC, CHR 0xDD, CHR 0xDE]"

definition to_upper :: "char \<Rightarrow> string" where
  "to_upper c =
     (if c = CHR 0xDF then ''SS''
      else case map_of (zip small_letters capital_letters) c of
             None \<Rightarrow> [c]
           | Some u \<Rightarrow> [u])"

definition to_lower :: "char \<Rightarrow> char" where
  "to_lower c =
     (case map_of (zip capital_letters small_letters) c of
        None \<Rightarrow> c
      | Some l \<Rightarrow> l)"

text \<open>\<open>word.charAt(0).toUpperCase() + word.slice(1).toLowerCase()\<close>.\<close>

definition capitalize :: "string \<Rightarrow> string" where
  "capitalize w = (case w of [] \<Rightarrow> [] | c # cs \<Rightarrow> to_upper c @ map to_lower cs)"

text \<open>\<open>split(" ")\<close>: every space separates, so the result is never empty.\<close>

fun split_space :: "string \<Rightarrow> string list" where
  "split_space [] = [[]]"
| "split_space (c # cs) =
     (if c = CHR '' '' then [] # split_space cs
      else (case split_space cs of [] \<Rightarrow> [[c]] | w # ws \<Rightarrow> (c # w) # ws))"

text \<open>\<open>join(" ")\<close>.\<close>

fun join_space :: "string list \<Rightarrow> string" where
  "join_space [] = []"
| "join_space [w] = w"
| "join_space (w # ws) = w @ '' '' @ join_space ws"

definition capitalizedName :: "string \<Rightarrow> string" where
  "capitalizedName productName = join_space (map capitalize (split_space productName))"

text \<open>One \<open>fillText(text, x, y)\<close> call.\<close>

type_synonym fill_text = "string \<times> int \<times> int"

definition maxWidth :: real where
  "maxWidth = 150"

definition maxLines :: nat where
  "maxLines = 3"

definition qrCodeCenterX :: int where
  "qrCodeCenterX = 380 + 75"

definition textY :: int where
  "textY = 810"

text \<open>
  The wrapping loop, from word \<open>i\<close> on: the words left, the line being built, its
  height on the card, the lines finished so far and the text drawn so far. The same
  loop stands in the card generator of the product list and in the card component.
  \<open>measureText\<close> gives the width the context reports for a text.
\<close>

fun wrap_loop ::
  "(string \<Rightarrow> real) \<Rightarrow> nat \<Rightarrow> string list \<Rightarrow> string \<Rightarrow> int \<Rightarrow> nat \<Rightarrow> fill_text list
     \<Rightarrow> string \<times> int \<times> nat \<times> fill_text list" where
  "wrap_loop measureText i [] line y lineCount out = (line, y, lineCount, out)"
| "wrap_loop measureText i (word # rest) line y lineCount out =
     (if maxLines - 1 \<le> lineCount \<and> rest \<noteq> []
      then (line, y, lineCount, out @ [(line @ ''...'', qrCodeCenterX, y)])
      else
        (let testLine = line @ word @ '' ''
         in if maxWidth < measureText testLine \<and> 0 < i
            then wrap_loop measureText (i + 1) rest (word @ '' '') (y + 20) (lineCount + 1)
                   (out @ [(line, qrCodeCenterX, y)])
            else wrap_loop measureText (i + 1) rest testLine y lineCount out))"

text \<open>The name on the card: the loop, then the last line while fewer than three are done.\<close>

definition draw_product_name :: "(string \<Rightarrow> real) \<Rightarrow> string \<Rightarrow> fill_text list" where
  "draw_product_name measureText productName =
     (let words = split_space (capitalizedName productName);
          (line, y, lineCount, out) = wrap_loop measureText 0 words [] textY 0 []
      in if lineCount < maxLines then out @ [(line, qrCodeCenterX, y)] else out)"

text \<open>
  Greedy wrapping as the specification words it, with no bound on the lines: words join
  the current line until its measured width exceeds the maximum, then a new line starts.
\<close>

fun greedy_lines :: "(string \<Rightarrow> real) \<Rightarrow> bool \<Rightarrow> string \<Rightarrow> string list \<Rightarrow> string list" where
  "greedy_lines measureText first line [] = [line]"
| "greedy_lines measureText first line (word # rest) =
     (if maxWidth < measureText (line @ word @ '' '') \<and> \<not> first
      then line # greedy_lines measureText False (word @ '' '') rest
      else greedy_lines measureText False (line @ word @ '' '') rest)"

definition has_ellipsis :: "fill_text \<Rightarrow> bool" where
  "has_ellipsis d = (case d of (t, x, y) \<Rightarrow> 3 \<le> length t \<and> drop (length t - 3) t = ''...'')"

text \<open>A text drawn at one of the three line heights under the code.\<close>

definition on_card_line :: "fill_text \<Rightarrow> bool" where
  "on_card_line d = (snd (snd d) \<in> {textY, textY + 20, textY + 40})"

section \<open>QR codes: the address and the encoding options\<close>

text \<open>\<open>window.location\<close>, as far as the program reads it.\<close>

record location =
  protocol :: string
  host :: string
  origin :: string

record qr_options =
  qr_width :: nat
  qr_margin :: nat
  color_dark :: string
  color_light :: string
  errorCorrectionLevel :: "string option"

text \<open>The places of the program that call \<open>QRCode.toDataURL\<close>.\<close>

datatype call_site =
    QRCodeGenerator_generateQRCode
  | AllQR_generateAndDownloadQR
  | ProductForm_generateQRCode
  | ProductDetail_generateAndDownloadQR
  | ProductDetail_downloadSimpleQRCode

text \<open>The options object written at each place.\<close>

fun site_options :: "call_site \<Rightarrow> qr_options" where
  "site_options QRCodeGenerator_generateQRCode =
     \<lparr>qr_width = 200, qr_margin = 1, color_dark = ''#000000'', color_light = ''#ffffff'',
      errorCorrectionLevel = None\<rparr>"
| "site_options AllQR_generateAndDownloadQR =
     \<lparr>qr_width = 200, qr_margin = 1, color_dark = ''#000000'', color_light = ''#ffffff'',
      errorCorrectionLevel = None\<rparr>"
| "site_options ProductForm_generateQRCode =
     \<lparr>qr_width = 200, qr_margin = 2, color_dark = ''#000000'', color_light = ''#ffffff'',
      errorCorrectionLevel = None\<rparr>"
| "site_options ProductDetail_generateAndDownloadQR =
     \<lparr>qr_width = 200, qr_margin = 1, color_dark = ''#000000'', color_light = ''#ffffff'',
      errorCorrectionLevel = None\<rparr>"
| "site_options ProductDetail_downloadSimpleQRCode =
     \<lparr>qr_width = 300, qr_margin = 1, color_dark = ''#000000'', color_light = ''#ffffff'',
      errorCorrectionLevel = None\<rparr>"

definition production_url :: string where
  "production_url = ''https://evershine-agent.vercel.app''"

text \<open>
  The address each place encodes. \<open>window\<close> is \<open>None\<close> where no browsing context
  exists: the card component then takes the production address, and the other places,
  which read \<open>window.location.origin\<close> unguarded, fail into their \<open>catch\<close> with the
  message given here and encode nothing.
\<close>

fun product_url :: "call_site \<Rightarrow> location option \<Rightarrow> string \<Rightarrow> string + string" where
  "product_url QRCodeGenerator_generateQRCode window productId =
     (let baseUrl = (case window of
                       Some loc \<Rightarrow> protocol loc @ ''//'' @ host loc
                     | None \<Rightarrow> production_url)
      in Inr (baseUrl @ ''/product/'' @ productId))"
| "product_url AllQR_generateAndDownloadQR window postId =
     (case window of
        None \<Rightarrow> Inl ''Failed to generate QR code''
      | Some loc \<Rightarrow> Inr (origin loc @ ''/product/'' @ postId))"
| "product_url ProductForm_generateQRCode window postId =
     (case window of
        None \<Rightarrow> Inl ''Failed to generate QR code''
      | Some loc \<Rightarrow> Inr (origin loc @ ''/product/'' @ postId))"
| "product_url ProductDetail_generateAndDownloadQR window postId =
     (case window of
        None \<Rightarrow> Inl ''Error generating QR code:''
      | Some loc \<Rightarrow> Inr (origin loc @ ''/product/'' @ postId))"
| "product_url ProductDetail_downloadSimpleQRCode window postId =
     (case window of
        None \<Rightarrow> Inl ''Error generating QR code:''
      | Some loc \<Rightarrow> Inr (origin loc @ ''/product/'' @ postId))"

text \<open>The call made at a place: the address and the options handed to the encoder.\<close>

definition qr_request :: "call_site \<Rightarrow> location option \<Rightarrow> string \<Rightarrow> string + (string \<times> qr_options)" where
  "qr_request site window productId =
     (case product_url site window productId of
        Inl e \<Rightarrow> Inl e
      | Inr url \<Rightarrow> Inr (url, site_options site))"

text \<open>
  The address as the specification gives it: the origin of the browsing context, or the
  production address where there is none, then the product path.
\<close>

definition buildProductUrl :: "location option \<Rightarrow> string \<Rightarrow> string" where
  "buildProductUrl window productId =
     (case window of Some loc \<Rightarrow> origin loc | None \<Rightarrow> production_url)
       @ ''/product/'' @ productId"

text \<open>The origin of an address with a host is its scheme and host, as \<open>scheme://host\<close>.\<close>

definition tuple_origin :: "location \<Rightarrow> bool" where
  "tuple_origin loc = (origin loc = protocol loc @ ''//'' @ host loc)"

text \<open>The location of a shop served over HTTPS.\<close>

definition shop_location :: location where
  "shop_location = \<lparr>protocol = ''https:'', host = ''shop.example'', origin = ''https://shop.example''\<rparr>"

section \<open>The product form: images\<close>

record upload_file =
  file_name :: string
  file_type :: string
  file_size :: nat

datatype message_type = error | success

record image_state =
  images :: "upload_file list"
  previews :: "string list"
  newImageCount :: int
  message :: "(string \<times> message_type) option"

datatype form_mode = create | edit

definition MAX_FILE_SIZE :: nat where
  "MAX_FILE_SIZE = 5 * 1024 * 1024"

definition ACCEPTED_IMAGE_TYPES :: "string list" where
  "ACCEPTED_IMAGE_TYPES = [''image/jpeg'', ''image/jpg'', ''image/png'', ''image/webp'']"

text \<open>
  The form opens with no new file; in edit mode the previews are the images the product
  has, when the initial data is there.
\<close>

definition initial_images :: "form_mode \<Rightarrow> string list option \<Rightarrow> image_state" where
  "initial_images mode initialImage =
     \<lparr>images = [],
      previews = (case initialImage of
                    Some existing \<Rightarrow> if mode = edit then existing else []
                  | None \<Rightarrow> []),
      newImageCount = 0, message = None\<rparr>"

definition validateImage :: "upload_file \<Rightarrow> image_state \<Rightarrow> bool \<times> image_state" where
  "validateImage file st =
     (if file_type file \<notin> set ACCEPTED_IMAGE_TYPES
      then (False, st\<lparr>message := Some (''Invalid file type. Only JPG, PNG and WebP are allowed'', error)\<rparr>)
      else if MAX_FILE_SIZE < file_size file
      then (False, st\<lparr>message := Some (''File size too large. Maximum size is 5MB'', error)\<rparr>)
      else (True, st))"

text \<open>\<open>fileArray.filter(validateImage)\<close>, with the messages the validation leaves.\<close>

fun filter_valid :: "upload_file list \<Rightarrow> image_state \<Rightarrow> upload_file list \<times> image_state" where
  "filter_valid [] st = ([], st)"
| "filter_valid (file # files) st =
     (let (ok, st1) = validateImage file st;
          (valid, st2) = filter_valid files st1
      in (if ok then file # valid else valid, st2))"

text \<open>
  The change handler of the file input; \<open>files\<close> is \<open>None\<close> when the input has no
  file list, and \<open>createObjectURL\<close> is the browser's function of that name.
\<close>

definition handleImageChange ::
  "(upload_file \<Rightarrow> string) \<Rightarrow> upload_file list option \<Rightarrow> image_state \<Rightarrow> image_state" where
  "handleImageChange createObjectURL files st =
     (case files of
        None \<Rightarrow> st
      | Some fileArray \<Rightarrow>
          (let totalImagesAfterAddition = length (images st) + length fileArray
           in if 10 < totalImagesAfterAddition
              then st\<lparr>message := Some (''You can only upload up to 10 images in total'', error)\<rparr>
              else
                (let (validFiles, st1) = filter_valid fileArray st
                 in if length validFiles \<noteq> length fileArray then st1
                    else st1\<lparr>images := images st1 @ validFiles,
                             newImageCount := newImageCount st1 + int (length validFiles),
                             previews := previews st1 @ map createObjectURL validFiles\<rparr>)))"

text \<open>\<open>splice(index, 1)\<close> on a copy: nothing is removed when the index is past the end.\<close>

definition splice1 :: "nat \<Rightarrow> 'a list \<Rightarrow> 'a list" where
  "splice1 index xs = take index xs @ drop (Suc index) xs"

definition removeImage :: "form_mode \<Rightarrow> string list option \<Rightarrow> nat \<Rightarrow> image_state \<Rightarrow> image_state" where
  "removeImage mode initialImage index st =
     (let existingCount = (case initialImage of Some existing \<Rightarrow> length existing | None \<Rightarrow> 0)
      in if mode = edit \<and> index < existingCount
         then st\<lparr>previews := splice1 index (previews st)\<rparr>
         else
           (let adjustedIndex = (if mode = edit then index - existingCount else index)
            in st\<lparr>images := splice1 adjustedIndex (images st),
                   previews := splice1 index (previews st),
                   newImageCount := newImageCount st - 1\<rparr>))"

text \<open>A PNG file of about one kilobyte, and the object URL a browser might give it.\<close>

definition png_file :: "string \<Rightarrow> upload_file" where
  "png_file name = \<lparr>file_name = name, file_type = ''image/png'', file_size = 1000\<rparr>"

definition blob_url :: "upload_file \<Rightarrow> string" where
  "blob_url file = ''blob:'' @ file_name file"

text \<open>A product with five images already stored, and ten new files to add.\<close>

definition five_existing :: "string list" where
  "five_existing = [''/img/1.jpg'', ''/img/2.jpg'', ''/img/3.jpg'', ''/img/4.jpg'', ''/img/5.jpg'']"

definition ten_files :: "upload_file list" where
  "ten_files = map png_file [''a'', ''b'', ''c'', ''d'', ''e'', ''f'', ''g'', ''h'', ''i'', ''j'']"

text \<open>
  The states of the image section a user can reach: additions through the file input,
  and removals through the button each preview carries.
\<close>

inductive reachable ::
  "form_mode \<Rightarrow> string list option \<Rightarrow> (upload_file \<Rightarrow> string) \<Rightarrow> image_state \<Rightarrow> bool"
  for mode initialImage createObjectURL where
    start: "reachable mode initialImage createObjectURL (initial_images mode initialImage)"
  | added: "reachable mode initialImage createObjectURL st \<Longrightarrow>
            reachable mode initialImage createObjectURL (handleImageChange createObjectURL files st)"
  | removed: "reachable mode initialImage createObjectURL st \<Longrightarrow> index < length (previews st) \<Longrightarrow>
              reachable mode initialImage createObjectURL (removeImage mode initialImage index st)"

section \<open>Evaluation of the built-ins\<close>

lemma binary_exponent_stop: "fuel = 0 \<Longrightarrow> binary_exponent fuel a e = e"
  by (subst binary_exponent.simps) simp

lemma binary_exponent_up:
  "fuel \<noteq> 0 \<Longrightarrow> pow2 (e + 1) \<le> a \<Longrightarrow>
     binary_exponent fuel a e = binary_exponent (fuel - 1) a (e + 1)"
  by (subst binary_exponent.simps) simp

lemma binary_exponent_down:
  "fuel \<noteq> 0 \<Longrightarrow> \<not> pow2 (e + 1) \<le> a \<Longrightarrow> a < pow2 e \<Longrightarrow>
     binary_exponent fuel a e = binary_exponent (fuel - 1) a (e - 1)"
  by (subst binary_exponent.simps) simp

lemma binary_exponent_here:
  "\<not> pow2 (e + 1) \<le> a \<Longrightarrow> \<not> a < pow2 e \<Longrightarrow> binary_exponent fuel a e = e"
  by (subst binary_exponent.simps) simp

lemma decimal_exponent_stop: "fuel = 0 \<Longrightarrow> decimal_exponent fuel a n = n"
  by (subst decimal_exponent.simps) simp

lemma decimal_exponent_up:
  "fuel \<noteq> 0 \<Longrightarrow> pow10 n \<le> a \<Longrightarrow>
     decimal_exponent fuel a n = decimal_exponent (fuel - 1) a (n + 1)"
  by (subst decimal_exponent.simps) simp

lemma decimal_exponent_down:
  "fuel \<noteq> 0 \<Longrightarrow> \<not> pow10 n \<le> a \<Longrightarrow> a < pow10 (n - 1) \<Longrightarrow>
     decimal_exponent fuel a n = decimal_exponent (fuel - 1) a (n - 1)"
  by (subst decimal_exponent.simps) simp

lemma decimal_exponent_here:
  "\<not> pow10 n \<le> a \<Longrightarrow> \<not> a < pow10 (n - 1) \<Longrightarrow> decimal_exponent fuel a n = n"
  by (subst decimal_exponent.simps) simp

lemma shortest_digits_found:
  "digits_candidate a n k \<noteq> None \<Longrightarrow>
     shortest_digits fuel a n k = (case the (digits_candidate a n k) of (s, n') \<Rightarrow> (s, n', k))"
  by (subst shortest_digits.simps) auto

lemma shortest_digits_more:
  "digits_candidate a n k = None \<Longrightarrow> fuel \<noteq> 0 \<Longrightarrow>
     shortest_digits fuel a n k = shortest_digits (fuel - 1) a n (k + 1)"
  by (subst shortest_digits.simps) simp

lemma digits_of_small: "n < 10 \<Longrightarrow> digits_of n = [''0123456789'' ! n]"
  by (simp add: digits_of.simps)

lemma digits_of_big:
  "10 \<le> n \<Longrightarrow> digits_of n = digits_of (n div 10) @ [''0123456789'' ! (n mod 10)]"
  by (subst digits_of.simps) simp

lemma replicate_step: "0 < n \<Longrightarrow> replicate n x = x # replicate (n - 1) x"
  by (cases n) simp_all

lemmas double_eval = to_double_def binary_exponent_stop binary_exponent_up binary_exponent_down
  binary_exponent_here pow2_def round_half_even_def Let_def

lemmas string_eval = js_to_string_def toFixed2_def format_digits_def digits_candidate_def
  decimal_exponent_stop decimal_exponent_up decimal_exponent_down decimal_exponent_here
  shortest_digits_found shortest_digits_more digits_of_small digits_of_big pow10_def
  replicate_step

lemmas parse_eval = parseFloat_def is_space_def is_digit_def digits_val_def digit_val_def
  exponent_part_def pow10_def

lemmas js_eval = double_eval string_eval parse_eval isNaN_def jsmul_def jsdiv_def Math_round_def
  times_sign_def division_sign_def

lemmas form_eval = quantity_effect_def calculate_quantity_def formula_text_def falsy_def text_of_def

lemmas detail_eval = calculateQuantityFormula_def match_size_def size_number_def falsy_num_def

lemma to_double_not_NaN: "to_double x \<noteq> NaN"
  by (simp add: to_double_def Let_def)

lemma parseFloat_empty: "parseFloat [] = NaN"
  by (simp add: parseFloat_def)

lemmas arith_eval = jsmul_def jsdiv_def Math_round_def double_eval

section \<open>The quantity calculation of the form\<close>

lemma quantity_effect_filled:
  assumes "ls \<noteq> []" "hs \<noteq> []" "ps \<noteq> []"
    and "parseFloat ls \<noteq> NaN" "parseFloat hs \<noteq> NaN" "parseFloat ps \<noteq> NaN"
  shows "quantity_effect (sample_form ls hs unit ps) =
     (sample_form ls hs unit ps)
       \<lparr>sizeParseError := None,
        quantityAvailable :=
          js_to_string (fst (calculate_quantity (parseFloat ls) (parseFloat hs) (parseFloat ps) unit)),
        calculationPreview :=
          Some (snd (calculate_quantity (parseFloat ls) (parseFloat hs) (parseFloat ps) unit))\<rparr>"
  using assms
  by (simp add: quantity_effect_def sample_form_def falsy_def text_of_def isNaN_def Let_def
        split: prod.splits)

lemma calculate_quantity_in:
  "calculate_quantity l h p ''in'' =
     (jsdiv (Math_round (jsmul (jsdiv (jsmul (jsmul l h) p) (Fin 144)) (Fin 100))) (Fin 100),
      formula_text l h p ''144'' (toFixed2 (jsdiv (jsmul (jsmul l h) p) (Fin 144))))"
  by (simp add: calculate_quantity_def Let_def)

lemma calculate_quantity_other:
  "unit \<noteq> ''in'' \<Longrightarrow> calculate_quantity l h p unit =
     (jsdiv (Math_round (jsmul (jsdiv (jsmul (jsmul l h) p) (Fin 929)) (Fin 100))) (Fin 100),
      formula_text l h p ''929'' (toFixed2 (jsdiv (jsmul (jsmul l h) p) (Fin 929))))"
  by (simp add: calculate_quantity_def Let_def)

subsection \<open>The inputs of the scenarios, in doubles\<close>

text \<open>
  The texts, the products, the quotients and the rounded quantities of the inputs used
  below, each step the nearest double of its exact result.
\<close>

lemma parse_10_1: "parseFloat ''10.1'' = Fin (5685794529555251 / 562949953421312)"
  by (simp add: parse_eval double_eval)

lemma parse_12: "parseFloat ''12'' = Fin 12"
  by (simp add: parse_eval double_eval)

lemma parse_3: "parseFloat ''3'' = Fin 3"
  by (simp add: parse_eval double_eval)

lemma parse_18: "parseFloat ''18'' = Fin 18"
  by (simp add: parse_eval double_eval)

lemma parse_10: "parseFloat ''10'' = Fin 10"
  by (simp add: parse_eval double_eval)

lemma parse_60: "parseFloat ''60'' = Fin 60"
  by (simp add: parse_eval double_eval)

lemma parse_120: "parseFloat ''120'' = Fin 120"
  by (simp add: parse_eval double_eval)

lemma parse_0: "parseFloat ''0'' = Fin 0"
  by (simp add: parse_eval double_eval)

lemma parse_5: "parseFloat ''5'' = Fin 5"
  by (simp add: parse_eval double_eval)

lemma parse_2: "parseFloat ''2'' = Fin 2"
  by (simp add: parse_eval double_eval)

lemma parse_minus_12: "parseFloat ''-12'' = Fin (- 12)"
  by (simp add: parse_eval double_eval)

lemma parse_1: "parseFloat ''1'' = Fin 1"
  by (simp add: parse_eval double_eval)

lemma parse_minus_1: "parseFloat ''-1'' = Fin (- 1)"
  by (simp add: parse_eval double_eval)

lemma text_10_1: "js_to_string (Fin (5685794529555251 / 562949953421312)) = ''10.1''"
  by (simp add: string_eval double_eval)

lemma text_12: "js_to_string (Fin 12) = ''12''"
  by (simp add: string_eval double_eval)

lemma text_3: "js_to_string (Fin 3) = ''3''"
  by (simp add: string_eval double_eval)

lemma text_2_53: "js_to_string (Fin (5697053528623677 / 2251799813685248)) = ''2.53''"
  by (simp add: string_eval double_eval)

lemma text_18: "js_to_string (Fin 18) = ''18''"
  by (simp add: string_eval double_eval)

lemma text_10: "js_to_string (Fin 10) = ''10''"
  by (simp add: string_eval double_eval)

lemma text_12_62: "js_to_string (Fin (7104428412176957 / 562949953421312)) = ''12.62''"
  by (simp add: string_eval double_eval)

lemma text_60: "js_to_string (Fin 60) = ''60''"
  by (simp add: string_eval double_eval)

lemma text_120: "js_to_string (Fin 120) = ''120''"
  by (simp add: string_eval double_eval)

lemma text_500: "js_to_string (Fin 500) = ''500''"
  by (simp add: string_eval double_eval)

lemma text_0: "js_to_string (Fin 0) = ''0''"
  by (simp add: string_eval double_eval)

lemma text_5: "js_to_string (Fin 5) = ''5''"
  by (simp add: string_eval double_eval)

lemma text_2: "js_to_string (Fin 2) = ''2''"
  by (simp add: string_eval double_eval)

lemma text_minus_12: "js_to_string (Fin (- 12)) = ''-12''"
  by (simp add: string_eval double_eval)

lemma text_1: "js_to_string (Fin 1) = ''1''"
  by (simp add: string_eval double_eval)

lemma text_minus_1: "js_to_string (Fin (- 1)) = ''-1''"
  by (simp add: string_eval double_eval)

lemma text_minus_0_01: "js_to_string (Fin (- 5764607523034235 / 576460752303423488)) = ''-0.01''"
  by (simp add: string_eval double_eval)

lemma quotient_10_1_by_12_by_3:
  "jsdiv (jsmul (jsmul (Fin (5685794529555251 / 562949953421312)) (Fin 12)) (Fin 3)) (Fin
      144) = Fin (5685794529555251 / 2251799813685248)"
proof -
  have m1: "jsmul (Fin (5685794529555251 / 562949953421312)) (Fin 12) = Fin (2132172948583219 /
        17592186044416)"
    by (simp add: arith_eval)
  have m2: "jsmul (Fin (2132172948583219 / 17592186044416)) (Fin 3) = Fin (6396518845749657 /
        17592186044416)"
    by (simp add: arith_eval)
  have q: "jsdiv (Fin (6396518845749657 / 17592186044416)) (Fin 144) = Fin (5685794529555251 /
        2251799813685248)"
    by (simp add: arith_eval)
  show ?thesis
    unfolding m1 m2 q ..
qed

lemma rounded_10_1_by_12_by_3:
  "jsdiv (Math_round (jsmul (Fin (5685794529555251 / 2251799813685248)) (Fin 100))) (Fin
      100) = Fin (5697053528623677 / 2251799813685248)"
proof -
  have c: "jsmul (Fin (5685794529555251 / 2251799813685248)) (Fin 100) = Fin (505 / 2)"
    by (simp add: arith_eval)
  have r: "Math_round (Fin (505 / 2)) = Fin 253"
    by (simp add: Math_round_def)
  have t: "jsdiv (Fin 253) (Fin 100) = Fin (5697053528623677 / 2251799813685248)"
    by (simp add: arith_eval)
  show ?thesis
    unfolding c r t ..
qed

lemma fixed_10_1_by_12_by_3: "toFixed2 (Fin (5685794529555251 / 2251799813685248)) = ''2.52''"
  by (simp add: string_eval)

lemma calculate_10_1_by_12_by_3:
  "calculate_quantity (Fin (5685794529555251 / 562949953421312)) (Fin 12) (Fin 3) ''in'' =
     (Fin (5697053528623677 / 2251799813685248), ''(10.1 '' @ [times_sign] @ '' 12 '' @
        [times_sign] @ '' 3) '' @ [division_sign] @ '' 144 = 2.52 sqft'')"
  unfolding calculate_quantity_in quotient_10_1_by_12_by_3 rounded_10_1_by_12_by_3
    fixed_10_1_by_12_by_3 formula_text_def text_10_1 text_12 text_3
  by simp

lemma quotient_10_1_by_18_by_10:
  "jsdiv (jsmul (jsmul (Fin (5685794529555251 / 562949953421312)) (Fin 18)) (Fin 10)) (Fin
      144) = Fin (7107243161944063 / 562949953421312)"
proof -
  have m1: "jsmul (Fin (5685794529555251 / 562949953421312)) (Fin 18) = Fin (6396518845749657 /
        35184372088832)"
    by (simp add: arith_eval)
  have m2: "jsmul (Fin (6396518845749657 / 35184372088832)) (Fin 10) = Fin (7995648557187071 /
        4398046511104)"
    by (simp add: arith_eval)
  have q: "jsdiv (Fin (7995648557187071 / 4398046511104)) (Fin 144) = Fin (7107243161944063 /
        562949953421312)"
    by (simp add: arith_eval)
  show ?thesis
    unfolding m1 m2 q ..
qed

lemma rounded_10_1_by_18_by_10:
  "jsdiv (Math_round (jsmul (Fin (7107243161944063 / 562949953421312)) (Fin 100))) (Fin
      100) = Fin (7104428412176957 / 562949953421312)"
proof -
  have c: "jsmul (Fin (7107243161944063 / 562949953421312)) (Fin 100) = Fin (5552533720268799 /
        4398046511104)"
    by (simp add: arith_eval)
  have r: "Math_round (Fin (5552533720268799 / 4398046511104)) = Fin 1262"
    by (simp add: Math_round_def)
  have t: "jsdiv (Fin 1262) (Fin 100) = Fin (7104428412176957 / 562949953421312)"
    by (simp add: arith_eval)
  show ?thesis
    unfolding c r t ..
qed

lemma fixed_10_1_by_18_by_10: "toFixed2 (Fin (7107243161944063 / 562949953421312)) = ''12.62''"
  by (simp add: string_eval)

lemma calculate_10_1_by_18_by_10:
  "calculate_quantity (Fin (5685794529555251 / 562949953421312)) (Fin 18) (Fin 10) ''in'' =
     (Fin (7104428412176957 / 562949953421312), ''(10.1 '' @ [times_sign] @ '' 18 '' @
        [times_sign] @ '' 10) '' @ [division_sign] @ '' 144 = 12.62 sqft'')"
  unfolding calculate_quantity_in quotient_10_1_by_18_by_10 rounded_10_1_by_18_by_10
    fixed_10_1_by_18_by_10 formula_text_def text_10_1 text_18 text_10
  by simp

lemma quotient_60_by_120_by_10:
  "jsdiv (jsmul (jsmul (Fin 60) (Fin 120)) (Fin 10)) (Fin 144) = Fin 500"
proof -
  have m1: "jsmul (Fin 60) (Fin 120) = Fin 7200"
    by (simp add: arith_eval)
  have m2: "jsmul (Fin 7200) (Fin 10) = Fin 72000"
    by (simp add: arith_eval)
  have q: "jsdiv (Fin 72000) (Fin 144) = Fin 500"
    by (simp add: arith_eval)
  show ?thesis
    unfolding m1 m2 q ..
qed

lemma rounded_60_by_120_by_10:
  "jsdiv (Math_round (jsmul (Fin 500) (Fin 100))) (Fin 100) = Fin 500"
proof -
  have c: "jsmul (Fin 500) (Fin 100) = Fin 50000"
    by (simp add: arith_eval)
  have r: "Math_round (Fin 50000) = Fin 50000"
    by (simp add: Math_round_def)
  have t: "jsdiv (Fin 50000) (Fin 100) = Fin 500"
    by (simp add: arith_eval)
  show ?thesis
    unfolding c r t ..
qed

lemma fixed_60_by_120_by_10: "toFixed2 (Fin 500) = ''500.00''"
  by (simp add: string_eval)

lemma calculate_60_by_120_by_10:
  "calculate_quantity (Fin 60) (Fin 120) (Fin 10) ''in'' =
     (Fin 500, ''(60 '' @ [times_sign] @ '' 120 '' @ [times_sign] @ '' 10) '' @
        [division_sign] @ '' 144 = 500.00 sqft'')"
  unfolding calculate_quantity_in quotient_60_by_120_by_10 rounded_60_by_120_by_10
    fixed_60_by_120_by_10 formula_text_def text_60 text_120 text_10
  by simp

lemma quotient_0_by_5_by_2:
  "jsdiv (jsmul (jsmul (Fin 0) (Fin 5)) (Fin 2)) (Fin 144) = Fin 0"
proof -
  have m1: "jsmul (Fin 0) (Fin 5) = Fin 0"
    by (simp add: arith_eval)
  have m2: "jsmul (Fin 0) (Fin 2) = Fin 0"
    by (simp add: arith_eval)
  have q: "jsdiv (Fin 0) (Fin 144) = Fin 0"
    by (simp add: arith_eval)
  show ?thesis
    unfolding m1 m2 q ..
qed

lemma rounded_0_by_5_by_2:
  "jsdiv (Math_round (jsmul (Fin 0) (Fin 100))) (Fin 100) = Fin 0"
proof -
  have c: "jsmul (Fin 0) (Fin 100) = Fin 0"
    by (simp add: arith_eval)
  have r: "Math_round (Fin 0) = Fin 0"
    by (simp add: Math_round_def)
  have t: "jsdiv (Fin 0) (Fin 100) = Fin 0"
    by (simp add: arith_eval)
  show ?thesis
    unfolding c r t ..
qed

lemma fixed_0_by_5_by_2: "toFixed2 (Fin 0) = ''0.00''"
  by (simp add: string_eval)

lemma calculate_0_by_5_by_2:
  "calculate_quantity (Fin 0) (Fin 5) (Fin 2) ''in'' =
     (Fin 0, ''(0 '' @ [times_sign] @ '' 5 '' @ [times_sign] @ '' 2) '' @ [division_sign] @
        '' 144 = 0.00 sqft'')"
  unfolding calculate_quantity_in quotient_0_by_5_by_2 rounded_0_by_5_by_2
    fixed_0_by_5_by_2 formula_text_def text_0 text_5 text_2
  by simp

lemma quotient_minus_12_by_12_by_1:
  "jsdiv (jsmul (jsmul (Fin (- 12)) (Fin 12)) (Fin 1)) (Fin 144) = Fin (- 1)"
proof -
  have m1: "jsmul (Fin (- 12)) (Fin 12) = Fin (- 144)"
    by (simp add: arith_eval)
  have m2: "jsmul (Fin (- 144)) (Fin 1) = Fin (- 144)"
    by (simp add: arith_eval)
  have q: "jsdiv (Fin (- 144)) (Fin 144) = Fin (- 1)"
    by (simp add: arith_eval)
  show ?thesis
    unfolding m1 m2 q ..
qed

lemma rounded_minus_12_by_12_by_1:
  "jsdiv (Math_round (jsmul (Fin (- 1)) (Fin 100))) (Fin 100) = Fin (- 1)"
proof -
  have c: "jsmul (Fin (- 1)) (Fin 100) = Fin (- 100)"
    by (simp add: arith_eval)
  have r: "Math_round (Fin (- 100)) = Fin (- 100)"
    by (simp add: Math_round_def)
  have t: "jsdiv (Fin (- 100)) (Fin 100) = Fin (- 1)"
    by (simp add: arith_eval)
  show ?thesis
    unfolding c r t ..
qed

lemma fixed_minus_12_by_12_by_1: "toFixed2 (Fin (- 1)) = ''-1.00''"
  by (simp add: string_eval)

lemma calculate_minus_12_by_12_by_1:
  "calculate_quantity (Fin (- 12)) (Fin 12) (Fin 1) ''in'' =
     (Fin (- 1), ''(-12 '' @ [times_sign] @ '' 12 '' @ [times_sign] @ '' 1) '' @
        [division_sign] @ '' 144 = -1.00 sqft'')"
  unfolding calculate_quantity_in quotient_minus_12_by_12_by_1 rounded_minus_12_by_12_by_1
    fixed_minus_12_by_12_by_1 formula_text_def text_minus_12 text_12 text_1
  by simp

lemma quotient_minus_1_by_1_by_1:
  "jsdiv (jsmul (jsmul (Fin (- 1)) (Fin 1)) (Fin 1)) (Fin 144) = Fin (- 2001599834386887 /
      288230376151711744)"
proof -
  have m1: "jsmul (Fin (- 1)) (Fin 1) = Fin (- 1)"
    by (simp add: arith_eval)
  have m2: "jsmul (Fin (- 1)) (Fin 1) = Fin (- 1)"
    by (simp add: arith_eval)
  have q: "jsdiv (Fin (- 1)) (Fin 144) = Fin (- 2001599834386887 / 288230376151711744)"
    by (simp add: arith_eval)
  show ?thesis
    unfolding m1 m2 q ..
qed

lemma rounded_minus_1_by_1_by_1:
  "jsdiv (Math_round (jsmul (Fin (- 2001599834386887 / 288230376151711744)) (Fin 100)))
      (Fin 100) = Fin (- 5764607523034235 / 576460752303423488)"
proof -
  have c: "jsmul (Fin (- 2001599834386887 / 288230376151711744)) (Fin 100) = Fin (-
        3127499741229511 / 4503599627370496)"
    by (simp add: arith_eval)
  have r: "Math_round (Fin (- 3127499741229511 / 4503599627370496)) = Fin (- 1)"
    by (simp add: Math_round_def)
  have t: "jsdiv (Fin (- 1)) (Fin 100) = Fin (- 5764607523034235 / 576460752303423488)"
    by (simp add: arith_eval)
  show ?thesis
    unfolding c r t ..
qed

lemma fixed_minus_1_by_1_by_1: "toFixed2 (Fin (- 2001599834386887 / 288230376151711744)) = ''-0.01''"
  by (simp add: string_eval)

lemma calculate_minus_1_by_1_by_1:
  "calculate_quantity (Fin (- 1)) (Fin 1) (Fin 1) ''in'' =
     (Fin (- 5764607523034235 / 576460752303423488), ''(-1 '' @ [times_sign] @ '' 1 '' @
        [times_sign] @ '' 1) '' @ [division_sign] @ '' 144 = -0.01 sqft'')"
  unfolding calculate_quantity_in quotient_minus_1_by_1_by_1 rounded_minus_1_by_1_by_1
    fixed_minus_1_by_1_by_1 formula_text_def text_minus_1 text_1 text_1
  by simp

lemma quotient_60_by_120_by_10_cm:
  "jsdiv (jsmul (jsmul (Fin 60) (Fin 120)) (Fin 10)) (Fin 929) = Fin (5453767040680095 /
      70368744177664)"
proof -
  have m1: "jsmul (Fin 60) (Fin 120) = Fin 7200"
    by (simp add: arith_eval)
  have m2: "jsmul (Fin 7200) (Fin 10) = Fin 72000"
    by (simp add: arith_eval)
  have q: "jsdiv (Fin 72000) (Fin 929) = Fin (5453767040680095 / 70368744177664)"
    by (simp add: arith_eval)
  show ?thesis
    unfolding m1 m2 q ..
qed

lemma fixed_60_by_120_by_10_cm: "toFixed2 (Fin (5453767040680095 / 70368744177664)) = ''77.50''"
  by (simp add: string_eval)

subsection \<open>The quantity and its preview\<close>

lemma sample_effect:
  assumes "parseFloat ls = Fin l" "parseFloat hs = Fin h" "parseFloat ps = Fin p"
  shows "quantity_effect (sample_form ls hs unit ps) =
     (sample_form ls hs unit ps)
       \<lparr>sizeParseError := None,
        quantityAvailable := js_to_string (fst (calculate_quantity (Fin l) (Fin h) (Fin p) unit)),
        calculationPreview := Some (snd (calculate_quantity (Fin l) (Fin h) (Fin p) unit))\<rparr>"
proof -
  have "ls \<noteq> []" "hs \<noteq> []" "ps \<noteq> []"
    using assms parseFloat_empty by auto
  then show ?thesis
    using quantity_effect_filled [of ls hs ps unit] assms by simp
qed

text \<open>
  C1 at two inputs, in inches. At the length 10.1, the height 12 and three pieces, the
  quotient the code computes is the double just below 2.525, whose nearest hundredth is
  2.52, and the preview shows 2.52; its product by 100 rounds to 252.5, so the quantity
  the code writes is 2.53. At the length 10.1, the height 18 and ten pieces, the
  quotient of the numbers as typed is 12.625, whose rounding to two decimals is 12.63;
  the quantity the code writes, and its preview, are 12.62. So the quantity is the
  rounding to two decimals neither of the quotient of the doubles nor of the quotient
  of the decimals.
\<close>

theorem rounded_quantity_differs_from_preview:
  "jsdiv (jsmul (jsmul (parseFloat ''10.1'') (parseFloat ''12'')) (parseFloat ''3'')) (Fin 144)
     = Fin (5685794529555251 / 2251799813685248)
   \<and> round_to_2 (5685794529555251 / 2251799813685248) = 252 / 100
   \<and> quantityAvailable (quantity_effect (sample_form ''10.1'' ''12'' ''in'' ''3'')) = ''2.53''
   \<and> calculationPreview (quantity_effect (sample_form ''10.1'' ''12'' ''in'' ''3''))
       = Some (''(10.1 '' @ [times_sign] @ '' 12 '' @ [times_sign] @ '' 3) '' @ [division_sign]
               @ '' 144 = 2.52 sqft'')
   \<and> round_to_2 (101 / 10 * 18 * 10 / 144) = 1263 / 100
   \<and> quantityAvailable (quantity_effect (sample_form ''10.1'' ''18'' ''in'' ''10'')) = ''12.62''
   \<and> calculationPreview (quantity_effect (sample_form ''10.1'' ''18'' ''in'' ''10''))
       = Some (''(10.1 '' @ [times_sign] @ '' 18 '' @ [times_sign] @ '' 10) '' @ [division_sign]
               @ '' 144 = 12.62 sqft'')"
proof -
  have q: "jsdiv (jsmul (jsmul (parseFloat ''10.1'') (parseFloat ''12'')) (parseFloat ''3'')) (Fin 144)
     = Fin (5685794529555251 / 2251799813685248)"
    unfolding parse_10_1 parse_12 parse_3 by (rule quotient_10_1_by_12_by_3)
  have r: "round_to_2 (5685794529555251 / 2251799813685248) = 252 / 100"
    "round_to_2 (101 / 10 * 18 * 10 / 144) = 1263 / 100"
    by (simp_all add: round_to_2_def round_def)
  have a: "quantity_effect (sample_form ''10.1'' ''12'' ''in'' ''3'') =
     (sample_form ''10.1'' ''12'' ''in'' ''3'')
       \<lparr>sizeParseError := None, quantityAvailable := ''2.53'',
        calculationPreview :=
          Some (''(10.1 '' @ [times_sign] @ '' 12 '' @ [times_sign] @ '' 3) '' @ [division_sign]
                @ '' 144 = 2.52 sqft'')\<rparr>"
    unfolding sample_effect [OF parse_10_1 parse_12 parse_3] calculate_10_1_by_12_by_3
    by (simp add: text_2_53)
  have b: "quantity_effect (sample_form ''10.1'' ''18'' ''in'' ''10'') =
     (sample_form ''10.1'' ''18'' ''in'' ''10'')
       \<lparr>sizeParseError := None, quantityAvailable := ''12.62'',
        calculationPreview :=
          Some (''(10.1 '' @ [times_sign] @ '' 18 '' @ [times_sign] @ '' 10) '' @ [division_sign]
                @ '' 144 = 12.62 sqft'')\<rparr>"
    unfolding sample_effect [OF parse_10_1 parse_18 parse_10] calculate_10_1_by_18_by_10
    by (simp add: text_12_62)
  show ?thesis
    using q r by (simp add: a b)
qed

text \<open>
  The scenario of the specification: 60 by 120, ten pieces, in inches, gives the
  quantity 500 and the formula text ending in \<open>144 = 500.00 sqft\<close>.
\<close>

lemma specification_scenario:
  "quantityAvailable (quantity_effect (sample_form ''60'' ''120'' ''in'' ''10'')) = ''500''
   \<and> calculationPreview (quantity_effect (sample_form ''60'' ''120'' ''in'' ''10''))
       = Some (''(60 '' @ [times_sign] @ '' 120 '' @ [times_sign] @ '' 10) '' @ [division_sign]
               @ '' 144 = 500.00 sqft'')"
  unfolding sample_effect [OF parse_60 parse_120 parse_10] calculate_60_by_120_by_10
  by (simp add: text_500)

subsection \<open>What the calculation rejects\<close>

lemma quantity_effect_null:
  assumes "autoCalculateQuantity st"
  shows "calculationPreview (quantity_effect st) = None \<longleftrightarrow>
           falsy (sizeLength st) \<or> falsy (sizeHeight st) \<or> falsy (numberOfPieces st)
           \<or> isNaN (parseFloat (text_of (sizeLength st)))
           \<or> isNaN (parseFloat (text_of (sizeHeight st)))
           \<or> isNaN (parseFloat (text_of (numberOfPieces st)))"
  using assms by (auto simp: quantity_effect_def Let_def split: prod.splits)

lemma quantity_effect_null_keeps:
  assumes "calculationPreview (quantity_effect st) = None"
  shows "quantityAvailable (quantity_effect st) = quantityAvailable st"
  using assms by (auto simp: quantity_effect_def Let_def split: prod.splits if_splits)

text \<open>
  C2, as the code has it. With auto-calculation on, the effect shows no preview exactly
  when one of the three fields is missing or empty, or parses to \<open>NaN\<close>; it then
  leaves the quantity field as it was. The sign of a parsed number is not examined.
\<close>

theorem no_preview_iff_missing_or_nan:
  assumes "autoCalculateQuantity st"
  shows "(calculationPreview (quantity_effect st) = None \<longleftrightarrow>
           falsy (sizeLength st) \<or> falsy (sizeHeight st) \<or> falsy (numberOfPieces st)
           \<or> isNaN (parseFloat (text_of (sizeLength st)))
           \<or> isNaN (parseFloat (text_of (sizeHeight st)))
           \<or> isNaN (parseFloat (text_of (numberOfPieces st))))
       \<and> (calculationPreview (quantity_effect st) = None \<longrightarrow>
            quantityAvailable (quantity_effect st) = quantityAvailable st)"
  using quantity_effect_null [OF assms] quantity_effect_null_keeps by blast

text \<open>
  A length that is not a number: no preview, and the quantity field stays empty.
\<close>

theorem no_preview_example:
  "calculationPreview (quantity_effect (sample_form ''abc'' ''120'' ''in'' ''10'')) = None
   \<and> quantityAvailable (quantity_effect (sample_form ''abc'' ''120'' ''in'' ''10'')) = []"
proof -
  let ?st = "sample_form ''abc'' ''120'' ''in'' ''10''"
  have a: "autoCalculateQuantity ?st"
    by (simp add: sample_form_def)
  have n: "isNaN (parseFloat (text_of (sizeLength ?st)))"
    by (simp add: sample_form_def text_of_def isNaN_def parse_eval)
  have q: "quantityAvailable ?st = []"
    by (simp add: sample_form_def)
  from no_preview_iff_missing_or_nan [OF a] n q show ?thesis
    by simp
qed

text \<open>
  C2 as stated fails: a zero length and a negative length both parse to numbers, so a
  quantity is written and a preview is shown.
\<close>

theorem zero_and_negative_inputs_are_calculated:
  "calculationPreview (quantity_effect (sample_form ''0'' ''5'' ''in'' ''2''))
     = Some (''(0 '' @ [times_sign] @ '' 5 '' @ [times_sign] @ '' 2) '' @ [division_sign]
             @ '' 144 = 0.00 sqft'')
   \<and> quantityAvailable (quantity_effect (sample_form ''0'' ''5'' ''in'' ''2'')) = ''0''
   \<and> calculationPreview (quantity_effect (sample_form ''-12'' ''12'' ''in'' ''1''))
     = Some (''(-12 '' @ [times_sign] @ '' 12 '' @ [times_sign] @ '' 1) '' @ [division_sign]
             @ '' 144 = -1.00 sqft'')
   \<and> quantityAvailable (quantity_effect (sample_form ''-12'' ''12'' ''in'' ''1'')) = ''-1''"
  unfolding sample_effect [OF parse_0 parse_5 parse_2] calculate_0_by_5_by_2
    sample_effect [OF parse_minus_12 parse_12 parse_1] calculate_minus_12_by_12_by_1
  by (simp add: text_0 text_minus_1)

subsection \<open>The sign of the area, and the repetition of the effect\<close>

lemma pow2_positive: "0 < pow2 e"
  by (simp add: pow2_def)

lemma round_half_even_not_negative: "0 \<le> r \<Longrightarrow> 0 \<le> round_half_even r"
  by (auto simp: round_half_even_def Let_def)

lemma to_double_not_negative: "0 \<le> x \<Longrightarrow> not_negative (to_double x)"
proof -
  assume x: "0 \<le> x"
  have "0 \<le> of_int (round_half_even (x / pow2 e)) * pow2 e" for e
    using x pow2_positive [of e] round_half_even_not_negative [of "x / pow2 e"]
    by (simp add: less_imp_le)
  then show ?thesis
    using x by (auto simp: to_double_def Let_def not_negative_def)
qed

lemma jsmul_not_negative:
  assumes "not_negative z" "0 < d"
  shows "not_negative (jsmul z (Fin d))"
  using assms to_double_not_negative [of "a * d" for a]
  by (cases z) (auto simp: jsmul_def not_negative_def jssign_def signed_inf_def)

lemma jsdiv_not_negative:
  assumes "not_negative z" "0 < d"
  shows "not_negative (jsdiv z (Fin d))"
  using assms to_double_not_negative [of "a / d" for a]
  by (cases z) (auto simp: jsdiv_def not_negative_def jssign_def signed_inf_def)

lemma Math_round_not_negative: "not_negative z \<Longrightarrow> not_negative (Math_round z)"
  by (cases z) (auto simp: Math_round_def not_negative_def)

lemma rounding_not_negative:
  assumes "not_negative z" "0 < d"
  shows "not_negative (jsdiv (Math_round (jsmul (jsdiv z (Fin d)) (Fin 100))) (Fin 100))"
  by (intro jsdiv_not_negative jsmul_not_negative Math_round_not_negative assms) simp_all

lemma rounding_NaN: "jsdiv (Math_round (jsmul (jsdiv NaN (Fin d)) (Fin 100))) (Fin 100) = NaN"
  by (simp add: jsdiv_def jsmul_def Math_round_def)

lemma product_not_negative:
  assumes "0 \<le> l" "0 \<le> h" "0 \<le> p"
  shows "not_negative (jsmul (jsmul (Fin l) (Fin h)) (Fin p))
       \<or> (jsmul (jsmul (Fin l) (Fin h)) (Fin p) = NaN \<and> p = 0 \<and> jsmul (Fin l) (Fin h) = PosInf)"
proof -
  have first: "jsmul (Fin l) (Fin h) = to_double (l * h)"
    by (simp add: jsmul_def)
  have "not_negative (to_double (l * h))"
    using assms by (simp add: to_double_not_negative)
  then consider a where "to_double (l * h) = Fin a" "0 \<le> a" | "to_double (l * h) = PosInf"
    by (cases "to_double (l * h)") (auto simp: not_negative_def)
  then show ?thesis
  proof cases
    case 1
    then have "jsmul (jsmul (Fin l) (Fin h)) (Fin p) = to_double (a * p)"
      by (simp add: first jsmul_def)
    moreover have "not_negative (to_double (a * p))"
      using 1 assms by (simp add: to_double_not_negative)
    ultimately show ?thesis by simp
  next
    case 2
    then show ?thesis
      using assms(3)
      by (auto simp: first jsmul_def jssign_def signed_inf_def not_negative_def)
  qed
qed

lemma calculate_quantity_fst:
  "fst (calculate_quantity l h p unit) =
     jsdiv (Math_round (jsmul (jsdiv (jsmul (jsmul l h) p)
       (Fin (if unit = ''in'' then 144 else 929))) (Fin 100))) (Fin 100)"
  by (simp add: calculate_quantity_def Let_def)

lemma quantity_effect_idem: "quantity_effect (quantity_effect st) = quantity_effect st"
  by (auto simp: quantity_effect_def Let_def split: prod.splits)

text \<open>
  C4, as the code has it. For a length, height and piece count that are finite and not
  negative, the total area is never negative: it is a finite number from zero up, or
  the positive infinity when a product overflows, or \<open>NaN\<close> in the one case where
  length times height overflows and the piece count is zero. Running the effect again on
  the form it has produced changes nothing.
\<close>

theorem total_area_nonneg_and_idempotent:
  assumes "0 \<le> l" "0 \<le> h" "0 \<le> p"
  shows "(not_negative (fst (calculate_quantity (Fin l) (Fin h) (Fin p) unit))
          \<or> (fst (calculate_quantity (Fin l) (Fin h) (Fin p) unit) = NaN
              \<and> p = 0 \<and> jsmul (Fin l) (Fin h) = PosInf))
       \<and> quantity_effect (quantity_effect st) = quantity_effect st"
proof -
  have d: "0 < (if unit = ''in'' then 144 else 929 :: real)"
    by simp
  from product_not_negative [OF assms]
  have "not_negative (fst (calculate_quantity (Fin l) (Fin h) (Fin p) unit))
          \<or> (fst (calculate_quantity (Fin l) (Fin h) (Fin p) unit) = NaN
              \<and> p = 0 \<and> jsmul (Fin l) (Fin h) = PosInf)"
    unfolding calculate_quantity_fst
    using rounding_not_negative [OF _ d] rounding_NaN by auto
  then show ?thesis
    by (simp add: quantity_effect_idem)
qed

text \<open>
  The scenario of the specification once more: its area is not negative.
\<close>

theorem total_area_nonneg_and_idempotent_example:
  "not_negative (fst (calculate_quantity (Fin 60) (Fin 120) (Fin 10) ''in''))
   \<and> quantity_effect (quantity_effect (sample_form ''60'' ''120'' ''in'' ''10''))
       = quantity_effect (sample_form ''60'' ''120'' ''in'' ''10'')"
  using total_area_nonneg_and_idempotent [of 60 120 10 "''in''" "sample_form ''60'' ''120'' ''in'' ''10''"]
  by simp

text \<open>
  C4 as stated fails: a negative length gives a negative total area, the double nearest
  to -0.01, in the arithmetic and in the quantity field of the form.
\<close>

theorem negative_length_gives_negative_area:
  "fst (calculate_quantity (Fin (- 1)) (Fin 1) (Fin 1) ''in'')
     = Fin (- 5764607523034235 / 576460752303423488)
   \<and> quantityAvailable (quantity_effect (sample_form ''-1'' ''1'' ''in'' ''1'')) = ''-0.01''"
  unfolding sample_effect [OF parse_minus_1 parse_1 parse_1] calculate_minus_1_by_1_by_1
  by (simp only: fst_conv snd_conv text_minus_0_01) simp

subsection \<open>Overflow\<close>

lemma pow2_powi: "pow2 e = 2 powi e"
  by (simp add: pow2_def power_int_def inverse_eq_divide power_one_over)

lemma pow2_step: "pow2 (e + 1) = 2 * pow2 e"
  by (simp add: pow2_powi power_int_add)

lemma pow2_mono: "e \<le> e' \<Longrightarrow> pow2 e \<le> pow2 e'"
  by (simp add: pow2_powi power_int_increasing)

lemma pow2_split: "pow2 (e - 52) * pow2 52 = pow2 e"
proof -
  have "pow2 (e - 52) * pow2 52 = 2 powi (e - 52 + 52)"
    unfolding pow2_powi by (rule power_int_add [symmetric]) simp
  then show ?thesis by (simp add: pow2_powi)
qed

lemma binary_exponent_upwards:
  assumes "pow2 e \<le> a"
  shows "pow2 (binary_exponent fuel a e) \<le> a
       \<and> (a < pow2 (binary_exponent fuel a e + 1) \<or> binary_exponent fuel a e = e + int fuel)"
  using assms
proof (induction fuel arbitrary: e)
  case 0
  then show ?case by (simp add: binary_exponent_stop)
next
  case (Suc fuel)
  show ?case
  proof (cases "pow2 (e + 1) \<le> a")
    case True
    have "binary_exponent (Suc fuel) a e = binary_exponent fuel a (e + 1)"
      using True by (simp add: binary_exponent_up)
    with Suc.IH [OF True] show ?thesis by auto
  next
    case False
    then have "binary_exponent (Suc fuel) a e = e"
      using Suc.prems by (simp add: binary_exponent_here)
    with False Suc.prems show ?thesis by simp
  qed
qed

lemma round_half_even_lower: "of_int m \<le> r \<Longrightarrow> m \<le> round_half_even r"
proof -
  assume "of_int m \<le> r"
  then have "m \<le> \<lfloor>r\<rfloor>" by (simp add: le_floor_iff)
  then show ?thesis by (auto simp: round_half_even_def Let_def)
qed

lemma to_double_overflow:
  assumes "pow2 1024 \<le> x"
  shows "to_double x = PosInf"
proof -
  have one: "pow2 0 \<le> \<bar>x\<bar>"
    using assms pow2_mono [of 0 1024] by simp
  define r where "r = binary_exponent 1100 \<bar>x\<bar> 0"
  from binary_exponent_upwards [OF one, of 1100]
  have r: "pow2 r \<le> \<bar>x\<bar>" "\<bar>x\<bar> < pow2 (r + 1) \<or> r = 1100"
    by (simp_all add: r_def)
  have big: "1024 \<le> r"
  proof (rule ccontr)
    assume "\<not> 1024 \<le> r"
    then have "r + 1 \<le> 1024" "r \<noteq> 1100" by simp_all
    with r(2) pow2_mono [of "r + 1" 1024] assms show False by simp
  qed
  have pos: "0 < x"
    using assms pow2_mono [of 0 1024] by (simp add: pow2_def)
  have e: "max r (- 1022) = r"
    using big by simp
  have "of_int (2 ^ 52) \<le> x / pow2 (r - 52)"
  proof -
    have "pow2 (r - 52) * pow2 52 \<le> x"
      using r(1) pos by (simp add: pow2_split)
    moreover have "0 < pow2 (r - 52)" by (simp add: pow2_powi)
    ultimately have "pow2 52 \<le> x / pow2 (r - 52)"
      by (simp add: pos_le_divide_eq mult.commute)
    then show ?thesis by (simp add: pow2_def)
  qed
  then have "2 ^ 52 \<le> round_half_even (x / pow2 (r - 52))"
    by (rule round_half_even_lower)
  then have "pow2 52 \<le> of_int (round_half_even (x / pow2 (r - 52)))"
    by (simp add: pow2_def)
  then have "pow2 52 * pow2 (r - 52) \<le> of_int (round_half_even (x / pow2 (r - 52))) * pow2 (r - 52)"
    by (simp add: pow2_powi)
  moreover have "pow2 52 * pow2 (r - 52) = pow2 r"
    using pow2_split [of r] by (simp only: mult.commute)
  ultimately have "pow2 r \<le> of_int (round_half_even (x / pow2 (r - 52))) * pow2 (r - 52)"
    by (simp only:)
  with pow2_mono [OF big]
  have "pow2 1024 \<le> \<bar>of_int (round_half_even (x / pow2 (r - 52))) * pow2 (r - 52)\<bar>"
    by linarith
  then show ?thesis
    using pos unfolding to_double_def r_def [symmetric] Let_def e
    by simp
qed

text \<open>
  Both other outcomes occur: two factors of \<open>2 ^ 600\<close> overflow to the infinity, and
  with no piece the area is \<open>NaN\<close>.
\<close>

lemma overflow_example:
  "fst (calculate_quantity (Fin (2 ^ 600)) (Fin (2 ^ 600)) (Fin 1) ''in'') = PosInf
   \<and> fst (calculate_quantity (Fin (2 ^ 600)) (Fin (2 ^ 600)) (Fin 0) ''in'') = NaN"
proof -
  have "pow2 1024 \<le> 2 ^ 600 * 2 ^ 600"
    by (simp add: pow2_def)
  then have "jsmul (Fin (2 ^ 600)) (Fin (2 ^ 600)) = PosInf"
    using to_double_overflow by (simp add: jsmul_def)
  then show ?thesis
    by (simp add: calculate_quantity_def Let_def jsmul_def jsdiv_def Math_round_def jssign_def
          signed_inf_def)
qed

section \<open>The detail page against the form\<close>

lemma digit_not_space: "is_digit c \<Longrightarrow> \<not> is_space c"
  by (auto simp: is_digit_def is_space_def)

lemma digit_not_sign: "is_digit c \<Longrightarrow> c \<noteq> CHR ''-'' \<and> c \<noteq> CHR ''+'' \<and> c \<noteq> CHR ''I''"
  by (auto simp: is_digit_def)

lemma parseFloat_digit_first:
  assumes "is_digit c"
  shows "parseFloat (c # cs) \<noteq> NaN"
proof -
  have t: "dropWhile is_space (c # cs) = c # cs"
    using digit_not_space [OF assms] by simp
  have i: "take 8 (c # cs) \<noteq> ''Infinity''"
    using digit_not_sign [OF assms] by (auto simp: take_Cons')
  have d: "takeWhile is_digit (c # cs) \<noteq> []"
    using assms by simp
  show ?thesis
    unfolding parseFloat_def t
    using digit_not_sign [OF assms] i d to_double_not_NaN
    by (simp add: Let_def split: prod.splits list.splits)
qed

lemma size_number_parses:
  assumes "size_number s = Some (m, r)"
  shows "m \<noteq> [] \<and> parseFloat m \<noteq> NaN"
proof (cases s)
  case Nil
  with assms show ?thesis by (simp add: size_number_def)
next
  case (Cons c cs)
  with assms have dc: "is_digit c"
    by (auto simp: size_number_def Let_def split: if_splits)
  then have "\<exists>ms. m = c # ms"
    using assms Cons by (auto simp: size_number_def Let_def split: if_splits list.splits)
  with parseFloat_digit_first [OF dc] show ?thesis by auto
qed

lemma match_size_parses:
  assumes "match_size s = Some (m1, m2)"
  shows "m1 \<noteq> [] \<and> parseFloat m1 \<noteq> NaN \<and> m2 \<noteq> [] \<and> parseFloat m2 \<noteq> NaN"
  using assms size_number_parses
  by (fastforce simp: match_size_def split: option.splits prod.splits list.splits if_splits)

text \<open>
  Where the two pages mean the same unit by their own words, \<open>in\<close> on the form and
  \<open>inches\<close> on the detail page, or \<open>cm\<close> on both, the detail page shows the
  formula the form showed.
\<close>

lemma detail_formula_agrees_when_units_match:
  assumes m: "match_size (filter (\<lambda>c. \<not> is_space c) size_text) = Some (m1, m2)"
    and p: "ps \<noteq> []" "parseFloat ps = pieces" "\<not> falsy_num pieces"
    and u: "form_unit = ''in'' \<and> detail_unit = ''inches'' \<or> form_unit = ''cm'' \<and> detail_unit = ''cm''"
  shows "calculateQuantityFormula size_text detail_unit pieces
           = calculationPreview (quantity_effect (sample_form m1 m2 form_unit ps))"
proof -
  from match_size_parses [OF m]
  have n: "m1 \<noteq> []" "parseFloat m1 \<noteq> NaN" "m2 \<noteq> []" "parseFloat m2 \<noteq> NaN"
    by simp_all
  have s: "size_text \<noteq> []"
    using m by (auto simp: match_size_def size_number_def)
  have pn: "pieces \<noteq> NaN"
    using p(3) by (simp add: falsy_num_def)
  have form: "calculationPreview (quantity_effect (sample_form m1 m2 form_unit ps))
      = Some (snd (calculate_quantity (parseFloat m1) (parseFloat m2) pieces form_unit))"
    using n p(1,2) pn
    by (simp add: quantity_effect_def sample_form_def falsy_def text_of_def isNaN_def Let_def
          split: prod.splits)
  have detail: "calculateQuantityFormula size_text detail_unit pieces
      = Some (snd (calculate_quantity (parseFloat m1) (parseFloat m2) pieces form_unit))"
    using u s p(3) m
    by (auto simp: calculateQuantityFormula_def calculate_quantity_def Let_def)
  show ?thesis
    by (simp only: form detail)
qed

lemma match_60x120: "match_size (filter (\<lambda>c. \<not> is_space c) ''60x120'') = Some (''60'', ''120'')"
  by (simp add: match_size_def size_number_def is_space_def is_digit_def)

text \<open>
  C3 at the unit the form stores for inches. The form writes \<open>in\<close> and divides by 144;
  the detail page compares the unit with \<open>inches\<close>, so for the same size and pieces it
  divides by 929 and shows another area.
\<close>

theorem detail_formula_divides_inches_by_929:
  "calculateQuantityFormula ''60x120'' ''in'' (Fin 10)
     = Some (''(60 '' @ [times_sign] @ '' 120 '' @ [times_sign] @ '' 10) '' @ [division_sign]
             @ '' 929 = 77.50 sqft'')
   \<and> calculationPreview (quantity_effect (sample_form ''60'' ''120'' ''in'' ''10''))
     = Some (''(60 '' @ [times_sign] @ '' 120 '' @ [times_sign] @ '' 10) '' @ [division_sign]
             @ '' 144 = 500.00 sqft'')"
proof -
  have "calculateQuantityFormula ''60x120'' ''in'' (Fin 10)
     = Some (formula_text (Fin 60) (Fin 120) (Fin 10) ''929''
         (toFixed2 (jsdiv (jsmul (jsmul (Fin 60) (Fin 120)) (Fin 10)) (Fin 929))))"
    unfolding calculateQuantityFormula_def match_60x120
    by (simp add: falsy_num_def parse_60 parse_120 Let_def)
  then have "calculateQuantityFormula ''60x120'' ''in'' (Fin 10)
     = Some (''(60 '' @ [times_sign] @ '' 120 '' @ [times_sign] @ '' 10) '' @ [division_sign]
             @ '' 929 = 77.50 sqft'')"
    unfolding quotient_60_by_120_by_10_cm fixed_60_by_120_by_10_cm formula_text_def
      text_60 text_120 text_10
    by simp
  with specification_scenario show ?thesis
    by simp
qed

section \<open>The bookmatch compositor\<close>

lemma upt_4: "[0..<4] = [0, 1, 2, 3::nat]"
  by (simp add: upt_rec)

lemma set_size_rec:
  "set_size w h \<lparr>canvas_width = W, canvas_height = H, scale_x = a, scale_y = d, shift_x = e,
      shift_y = f, saved = S, drawn = D\<rparr>
   = \<lparr>canvas_width = w, canvas_height = h, scale_x = a, scale_y = d, shift_x = e,
      shift_y = f, saved = S, drawn = D\<rparr>"
  by (simp add: set_size_def)

lemma ctx_setTransform_rec:
  "ctx_setTransform a' d' e' f' \<lparr>canvas_width = W, canvas_height = H, scale_x = a, scale_y = d,
      shift_x = e, shift_y = f, saved = S, drawn = D\<rparr>
   = \<lparr>canvas_width = W, canvas_height = H, scale_x = a', scale_y = d', shift_x = e',
      shift_y = f', saved = S, drawn = D\<rparr>"
  by (simp add: ctx_setTransform_def)

lemma ctx_save_rec:
  "ctx_save \<lparr>canvas_width = W, canvas_height = H, scale_x = a, scale_y = d, shift_x = e,
      shift_y = f, saved = S, drawn = D\<rparr>
   = \<lparr>canvas_width = W, canvas_height = H, scale_x = a, scale_y = d, shift_x = e,
      shift_y = f, saved = (a, d, e, f) # S, drawn = D\<rparr>"
  by (simp add: ctx_save_def)

lemma ctx_restore_rec:
  "ctx_restore \<lparr>canvas_width = W, canvas_height = H, scale_x = a, scale_y = d, shift_x = e,
      shift_y = f, saved = (a', d', e', f') # S, drawn = D\<rparr>
   = \<lparr>canvas_width = W, canvas_height = H, scale_x = a', scale_y = d', shift_x = e',
      shift_y = f', saved = S, drawn = D\<rparr>"
  by (simp add: ctx_restore_def)

lemma ctx_translate_rec:
  "ctx_translate dx dy \<lparr>canvas_width = W, canvas_height = H, scale_x = a, scale_y = d,
      shift_x = e, shift_y = f, saved = S, drawn = D\<rparr>
   = \<lparr>canvas_width = W, canvas_height = H, scale_x = a, scale_y = d, shift_x = e + a * dx,
      shift_y = f + d * dy, saved = S, drawn = D\<rparr>"
  by (simp add: ctx_translate_def)

lemma ctx_scale_rec:
  "ctx_scale a' d' \<lparr>canvas_width = W, canvas_height = H, scale_x = a, scale_y = d,
      shift_x = e, shift_y = f, saved = S, drawn = D\<rparr>
   = \<lparr>canvas_width = W, canvas_height = H, scale_x = a * a', scale_y = d * d', shift_x = e,
      shift_y = f, saved = S, drawn = D\<rparr>"
  by (simp add: ctx_scale_def)

lemma ctx_drawImage_rec:
  "ctx_drawImage dx dy dw dh \<lparr>canvas_width = W, canvas_height = H, scale_x = a, scale_y = d,
      shift_x = e, shift_y = f, saved = S, drawn = D\<rparr>
   = \<lparr>canvas_width = W, canvas_height = H, scale_x = a, scale_y = d, shift_x = e,
      shift_y = f, saved = S,
      drawn = D @ [\<lparr>tile_x = min (a * dx + e) (a * (dx + dw) + e),
                     tile_y = min (d * dy + f) (d * (dy + dh) + f),
                     tile_w = \<bar>a * (dx + dw) + e - (a * dx + e)\<bar>,
                     tile_h = \<bar>d * (dy + dh) + f - (d * dy + f)\<bar>,
                     flipped_x = (a < 0), flipped_y = (d < 0)\<rparr>]\<rparr>"
  by (simp add: ctx_drawImage_def Let_def)

lemmas ctx_rec = set_size_rec ctx_setTransform_rec ctx_save_rec ctx_restore_rec ctx_translate_rec
  ctx_scale_rec ctx_drawImage_rec

lemma draw_exact_square_result:
  assumes "0 \<le> w" "0 \<le> h"
  shows "draw_exact_square w h createCanvas =
     \<lparr>canvas_width = w * 2, canvas_height = h * 2, scale_x = 1, scale_y = 1, shift_x = 0,
      shift_y = 0, saved = [], drawn = quadrants w h\<rparr>"
  using assms by (simp add: draw_exact_square_def createCanvas_def quadrants_def ctx_rec Let_def min_def)


lemma nearly_square_cell_rec:
  assumes "0 \<le> w" "0 \<le> h"
  shows "nearly_square_cell w h y x \<lparr>canvas_width = W, canvas_height = H, scale_x = 1,
            scale_y = 1, shift_x = 0, shift_y = 0, saved = S, drawn = D\<rparr>
       = \<lparr>canvas_width = W, canvas_height = H, scale_x = 1, scale_y = 1, shift_x = 0,
          shift_y = 0, saved = S,
          drawn = D @ [\<lparr>tile_x = int x * w, tile_y = int y * h, tile_w = w, tile_h = h,
                         flipped_x = odd x, flipped_y = odd y\<rparr>]\<rparr>"
  using assms
  by (cases "odd x"; cases "odd y")
     (simp_all add: nearly_square_cell_def ctx_rec Let_def min_def odd_iff_mod_2_eq_one)

lemma non_square_cell_rec:
  assumes "0 \<le> w" "0 \<le> h"
  shows "non_square_cell w h y x \<lparr>canvas_width = W, canvas_height = H, scale_x = 1,
            scale_y = 1, shift_x = 0, shift_y = 0, saved = S, drawn = D\<rparr>
       = \<lparr>canvas_width = W, canvas_height = H, scale_x = 1, scale_y = 1, shift_x = 0,
          shift_y = 0, saved = S,
          drawn = D @ [\<lparr>tile_x = int x * w, tile_y = int y * h, tile_w = w, tile_h = h,
                         flipped_x = odd x, flipped_y = odd y\<rparr>]\<rparr>"
  using assms
  by (cases "odd x"; cases "odd y")
     (simp_all add: non_square_cell_def ctx_rec Let_def min_def odd_iff_mod_2_eq_one)

lemma parity_grid_unfold:
  "parity_grid w h =
     map (\<lambda>x. \<lparr>tile_x = int x * w, tile_y = 0, tile_w = w, tile_h = h,
                 flipped_x = odd x, flipped_y = False\<rparr>) [0, 1, 2, 3]
     @ map (\<lambda>x. \<lparr>tile_x = int x * w, tile_y = h, tile_w = w, tile_h = h,
                 flipped_x = odd x, flipped_y = True\<rparr>) [0, 1, 2, 3]
     @ map (\<lambda>x. \<lparr>tile_x = int x * w, tile_y = 2 * h, tile_w = w, tile_h = h,
                 flipped_x = odd x, flipped_y = False\<rparr>) [0, 1, 2, 3]
     @ map (\<lambda>x. \<lparr>tile_x = int x * w, tile_y = 3 * h, tile_w = w, tile_h = h,
                 flipped_x = odd x, flipped_y = True\<rparr>) [0, 1, 2, 3]"
  by (simp add: parity_grid_def upt_4)

lemma draw_nearly_square_result:
  assumes "0 \<le> w" "0 \<le> h"
  shows "draw_nearly_square w h createCanvas =
     \<lparr>canvas_width = w * 4, canvas_height = h * 4, scale_x = 1, scale_y = 1, shift_x = 0,
      shift_y = 0, saved = [], drawn = parity_grid w h\<rparr>"
  using assms
  by (simp add: draw_nearly_square_def createCanvas_def set_size_rec upt_4
        nearly_square_cell_rec parity_grid_unfold)

lemma draw_non_square_result:
  assumes "0 \<le> w" "0 \<le> h"
  shows "draw_non_square w h createCanvas =
     \<lparr>canvas_width = w * 4, canvas_height = h * 4, scale_x = 1, scale_y = 1, shift_x = 0,
      shift_y = 0, saved = [], drawn = parity_grid w h\<rparr>"
  using assms
  by (simp add: draw_non_square_def createCanvas_def set_size_rec upt_4
        non_square_cell_rec parity_grid_unfold)


lemma img_onload_exact:
  assumes "(w = 488 \<and> h = 488) \<or> (w = 646 \<and> h = 646)"
  shows "bookmatchedTexture (img_onload True w h st) =
     Some (DataURL \<lparr>canvas_width = int w * 2, canvas_height = int h * 2, scale_x = 1, scale_y = 1,
       shift_x = 0, shift_y = 0, saved = [], drawn = quadrants (int w) (int h)\<rparr>)"
  using assms by (auto simp: img_onload_def Let_def draw_exact_square_result)

lemma img_onload_grid:
  assumes "\<not> ((w = 488 \<and> h = 488) \<or> (w = 646 \<and> h = 646))"
  shows "bookmatchedTexture (img_onload True w h st) =
     Some (DataURL \<lparr>canvas_width = int w * 4, canvas_height = int h * 4, scale_x = 1, scale_y = 1,
       shift_x = 0, shift_y = 0, saved = [], drawn = parity_grid (int w) (int h)\<rparr>)"
  using assms
  by (auto simp: img_onload_def Let_def draw_nearly_square_result draw_non_square_result)

text \<open>
  C5. When the texture is not made yet, the image loads with width \<open>w\<close> and height
  \<open>h\<close>, and the canvas gives a context: for 488 by 488 and 646 by 646 the canvas is
  \<open>2w\<close> by \<open>2h\<close> and holds the four quadrants (the source, its horizontal mirror, its
  vertical mirror, the mirror on both axes); for every other size the canvas is \<open>4w\<close>
  by \<open>4h\<close> and holds sixteen cells, the one at column \<open>x\<close>, row \<open>y\<close> mirrored
  horizontally exactly when \<open>x\<close> is odd and vertically exactly when \<open>y\<close> is odd.
\<close>

theorem bookmatch_tiling_strategy:
  assumes fresh: "\<not> texture_present (bookmatchedTexture st)"
    and loaded: "load (image_src encodeURIComponent imageUrl) = Loaded w h"
  shows "\<exists>c. bookmatchedTexture (createBookmatchedTexture encodeURIComponent load True imageUrl st)
              = Some (DataURL c)
           \<and> (if (w = 488 \<and> h = 488) \<or> (w = 646 \<and> h = 646)
              then canvas_width c = 2 * int w \<and> canvas_height c = 2 * int h
                   \<and> drawn c = quadrants (int w) (int h)
              else canvas_width c = 4 * int w \<and> canvas_height c = 4 * int h
                   \<and> drawn c = parity_grid (int w) (int h))"
proof (cases "(w = 488 \<and> h = 488) \<or> (w = 646 \<and> h = 646)")
  case True
  have "createBookmatchedTexture encodeURIComponent load True imageUrl st = img_onload True w h st"
    using fresh loaded by (simp add: createBookmatchedTexture_def)
  with True img_onload_exact [OF True, of st] show ?thesis
    by simp
next
  case False
  have "createBookmatchedTexture encodeURIComponent load True imageUrl st = img_onload True w h st"
    using fresh loaded by (simp add: createBookmatchedTexture_def)
  with False img_onload_grid [OF False, of st] show ?thesis
    by simp
qed

text \<open>
  A 488 by 488 image gives the 976 by 976 canvas of quadrants; a 300 by 200 image gives
  the 1200 by 800 canvas of the parity grid.
\<close>

theorem bookmatch_tiling_strategy_example:
  "(\<exists>c. bookmatchedTexture (createBookmatchedTexture (\<lambda>u. u) (\<lambda>src. Loaded 488 488) True
            ''/assets/marble.png'' initial_visualizer) = Some (DataURL c)
        \<and> canvas_width c = 976 \<and> canvas_height c = 976 \<and> drawn c = quadrants 488 488)
   \<and> (\<exists>c. bookmatchedTexture (createBookmatchedTexture (\<lambda>u. u) (\<lambda>src. Loaded 300 200) True
            ''/assets/marble.png'' initial_visualizer) = Some (DataURL c)
        \<and> canvas_width c = 1200 \<and> canvas_height c = 800 \<and> drawn c = parity_grid 300 200)"
proof -
  have fresh: "\<not> texture_present (bookmatchedTexture initial_visualizer)"
    by (simp add: initial_visualizer_def texture_present_def)
  show ?thesis
    using bookmatch_tiling_strategy [OF fresh, of "\<lambda>src. Loaded 488 488" "\<lambda>u. u" "''/assets/marble.png''" 488 488]
      bookmatch_tiling_strategy [OF fresh, of "\<lambda>src. Loaded 300 200" "\<lambda>u. u" "''/assets/marble.png''" 300 200]
    by simp
qed

text \<open>
  C9. When the texture is not made yet and the load of the image fails, the texture
  becomes the product image URL as it was passed in, the texture is marked ready, and
  nothing else changes; the handler is a plain state change, with no failure to pass on.
\<close>

theorem bookmatch_load_failure_fallback:
  assumes fresh: "\<not> texture_present (bookmatchedTexture st)"
    and failed: "load (image_src encodeURIComponent imageUrl) = LoadError"
  shows "createBookmatchedTexture encodeURIComponent load has_ctx imageUrl st
           = st\<lparr>bookmatchedTexture := Some (SourceUrl imageUrl), textureReady := True\<rparr>"
  using fresh failed by (simp add: createBookmatchedTexture_def img_onerror_def)

text \<open>
  A remote image is asked for through the proxy; when that load fails the texture is the
  remote URL itself, not the proxy address.
\<close>

theorem bookmatch_load_failure_fallback_example:
  "image_src (\<lambda>u. u) ''https://cdn.example/marble.jpg'' = ''/api/proxy-image?url=https://cdn.example/marble.jpg''
   \<and> createBookmatchedTexture (\<lambda>u. u) (\<lambda>src. LoadError) True ''https://cdn.example/marble.jpg'' initial_visualizer
       = \<lparr>bookmatchedTexture = Some (SourceUrl ''https://cdn.example/marble.jpg''), textureReady = True,
          backgroundSize = ''400px 400px'', backgroundPosition = ''center''\<rparr>"
proof -
  have fresh: "\<not> texture_present (bookmatchedTexture initial_visualizer)"
    by (simp add: initial_visualizer_def texture_present_def)
  have src: "image_src (\<lambda>u. u) ''https://cdn.example/marble.jpg'' = ''/api/proxy-image?url=https://cdn.example/marble.jpg''"
    by (simp add: image_src_def)
  show ?thesis
    using bookmatch_load_failure_fallback [OF fresh, of "\<lambda>src. LoadError" "\<lambda>u. u" "''https://cdn.example/marble.jpg''" True]
    by (simp add: src initial_visualizer_def)
qed

section \<open>The product name on the QR card\<close>

lemmas name_eval = capitalizedName_def capitalize_def to_upper_def to_lower_def small_letters_def
  capital_letters_def

lemmas wrap_eval = draw_product_name_def maxWidth_def maxLines_def qrCodeCenterX_def textY_def
  Let_def

lemma words4:
  "split_space (capitalizedName ''aaaa bbbb cccc dddd'') = [''Aaaa'', ''Bbbb'', ''Cccc'', ''Dddd'']"
  by (simp add: name_eval)

text \<open>
  C6 at a name of four words, each fitting a line alone and no two together. Greedy
  wrapping needs four lines. The loop draws three, without an ellipsis on any, and the
  fourth word is not drawn at all: at the last word the ellipsis test is skipped, the
  third line is closed, and the line count then forbids the final draw.
\<close>

theorem fourth_line_dropped_without_ellipsis:
  "greedy_lines (\<lambda>t. 20 * real (length t)) True [] (split_space (capitalizedName ''aaaa bbbb cccc dddd''))
     = [''Aaaa '', ''Bbbb '', ''Cccc '', ''Dddd '']
   \<and> draw_product_name (\<lambda>t. 20 * real (length t)) ''aaaa bbbb cccc dddd''
     = [(''Aaaa '', 455, 810), (''Bbbb '', 455, 830), (''Cccc '', 455, 850)]
   \<and> \<not> list_ex has_ellipsis (draw_product_name (\<lambda>t. 20 * real (length t)) ''aaaa bbbb cccc dddd'')"
  by (simp add: words4 wrap_eval has_ellipsis_def)

text \<open>
  Where the ellipsis is drawn, the loop is left with the line count at two, so the final
  draw puts the same line, without the ellipsis, on top of it.
\<close>

lemma words5: "split_space (capitalizedName ''a b c d e'') = [''A'', ''B'', ''C'', ''D'', ''E'']"
  by (simp add: name_eval)

lemma ellipsis_line_drawn_twice:
  "draw_product_name (\<lambda>t. 40 * real (length t)) ''a b c d e''
     = [(''A '', 455, 810), (''B '', 455, 830), (''C ...'', 455, 850), (''C '', 455, 850)]"
  by (simp add: words5 wrap_eval)

lemma on_card_line_height: "lc \<le> 2 \<Longrightarrow> on_card_line (t, x, textY + 20 * int lc)"
proof -
  assume "lc \<le> 2"
  then have "lc = 0 \<or> lc = 1 \<or> lc = 2" by arith
  then show ?thesis by (auto simp: on_card_line_def)
qed

lemma wrap_loop_heights:
  assumes "wrap_loop m i ws line y lc out = (line', y', lc', out')"
    and "y = textY + 20 * int lc"
    and "lc \<le> 2 \<or> ws = []" and "lc \<le> 3"
    and "list_all on_card_line out"
  shows "y' = textY + 20 * int lc' \<and> lc' \<le> 3 \<and> list_all on_card_line out'"
  using assms
proof (induction m i ws line y lc out rule: wrap_loop.induct)
  case (1 m i line y lc out)
  then show ?case by simp
next
  case (2 m i word rest line y lc out)
  have lc2: "lc \<le> 2" using "2.prems"(3) by simp
  have here: "on_card_line (t, qrCodeCenterX, y)" for t
    using on_card_line_height [OF lc2] "2.prems"(2) by simp
  show ?case
  proof (cases "maxLines - 1 \<le> lc \<and> rest \<noteq> []")
    case True
    then have step: "wrap_loop m i (word # rest) line y lc out
                       = (line, y, lc, out @ [(line @ ''...'', qrCodeCenterX, y)])"
      by simp
    have "(line, y, lc, out @ [(line @ ''...'', qrCodeCenterX, y)]) = (line', y', lc', out')"
      using "2.prems"(1) unfolding step .
    then have res: "y' = y" "lc' = lc" "out' = out @ [(line @ ''...'', qrCodeCenterX, y)]"
      by auto
    have "list_all on_card_line (out @ [(line @ ''...'', qrCodeCenterX, y)])"
      using "2.prems"(5) here by simp
    then show ?thesis
      using "2.prems"(2,4) res by simp
  next
    case go: False
    then have next_ok: "lc + 1 \<le> 2 \<or> rest = []"
      using lc2 by (auto simp: maxLines_def)
    show ?thesis
    proof (cases "maxWidth < m (line @ word @ '' '') \<and> 0 < i")
      case True
      have step: "wrap_loop m i (word # rest) line y lc out
                    = wrap_loop m (i + 1) rest (word @ '' '') (y + 20) (lc + 1)
                        (out @ [(line, qrCodeCenterX, y)])"
        using go True by (auto simp: Let_def)
      have run: "wrap_loop m (i + 1) rest (word @ '' '') (y + 20) (lc + 1)
                   (out @ [(line, qrCodeCenterX, y)]) = (line', y', lc', out')"
        using "2.prems"(1) unfolding step .
      have "y + 20 = textY + 20 * int (lc + 1)"
        using "2.prems"(2) by simp
      moreover have "lc + 1 \<le> 3" using lc2 by simp
      moreover have "list_all on_card_line (out @ [(line, qrCodeCenterX, y)])"
        using "2.prems"(5) here by simp
      ultimately show ?thesis
        using "2.IH"(1) [OF go refl True run] next_ok by blast
    next
      case False
      have step: "wrap_loop m i (word # rest) line y lc out
                    = wrap_loop m (i + 1) rest (line @ word @ '' '') y lc out"
        using go False by (auto simp: Let_def)
      have run: "wrap_loop m (i + 1) rest (line @ word @ '' '') y lc out = (line', y', lc', out')"
        using "2.prems"(1) unfolding step .
      have "lc \<le> 2 \<or> rest = []" using lc2 by simp
      then show ?thesis
        using "2.IH"(2) [OF go refl False run "2.prems"(2)] "2.prems"(4,5) by blast
    qed
  qed
qed

text \<open>
  The part of C6 that holds for every name and every width function: all text is drawn
  at one of the three line heights.
\<close>

lemma product_name_within_three_lines:
  "list_all on_card_line (draw_product_name m name)"
proof -
  obtain line y lc out
    where r: "wrap_loop m 0 (split_space (capitalizedName name)) [] textY 0 [] = (line, y, lc, out)"
    by (metis prod_cases4)
  from wrap_loop_heights [OF r] have h: "y = textY + 20 * int lc" "list_all on_card_line out"
    by simp_all
  have "lc < maxLines \<Longrightarrow> on_card_line (line, qrCodeCenterX, y)"
    using on_card_line_height [of lc] h(1) by (simp add: maxLines_def)
  with h r show ?thesis
    by (simp add: draw_product_name_def Let_def)
qed

section \<open>The address and the options of the QR codes\<close>

lemma product_url_with_window:
  assumes "tuple_origin loc"
  shows "product_url site (Some loc) productId = Inr (origin loc @ ''/product/'' @ productId)"
  using assms by (cases site) (simp_all add: tuple_origin_def)

lemma product_url_without_window:
  "product_url site None productId = Inr url \<Longrightarrow> url = production_url @ ''/product/'' @ productId"
  by (cases site) simp_all

text \<open>
  C7. Where the location's origin is its scheme and host, every place that encodes an
  address encodes exactly the origin, or the production address when there is no
  browsing context, followed by \<open>/product/\<close> and the product identifier, with
  nothing after it. The card component always does so; with a browsing context every
  place does.
\<close>

theorem qr_url_is_origin_product_path:
  assumes "\<forall>loc. window = Some loc \<longrightarrow> tuple_origin loc"
  shows "(\<forall>site url. product_url site window productId = Inr url
            \<longrightarrow> url = buildProductUrl window productId)
       \<and> product_url QRCodeGenerator_generateQRCode window productId
            = Inr (buildProductUrl window productId)
       \<and> (window \<noteq> None \<longrightarrow> (\<forall>site. product_url site window productId
            = Inr (buildProductUrl window productId)))"
proof (cases window)
  case None
  have b: "buildProductUrl None productId = production_url @ ''/product/'' @ productId"
    by (simp add: buildProductUrl_def)
  have "\<forall>site url. product_url site None productId = Inr url \<longrightarrow> url = buildProductUrl None productId"
    unfolding b using product_url_without_window by blast
  moreover have "product_url QRCodeGenerator_generateQRCode None productId
                   = Inr (buildProductUrl None productId)"
    unfolding b by simp
  ultimately show ?thesis
    unfolding None by simp
next
  case (Some loc)
  with assms have "tuple_origin loc" by simp
  then have "product_url site (Some loc) productId = Inr (buildProductUrl (Some loc) productId)" for site
    using product_url_with_window [of loc site productId] by (simp add: buildProductUrl_def)
  then show ?thesis
    unfolding Some by simp
qed

text \<open>
  The product \<open>abc123\<close> on the shop's origin, and under the production address
  where no window exists.
\<close>

theorem qr_url_is_origin_product_path_example:
  "product_url QRCodeGenerator_generateQRCode (Some shop_location) ''abc123''
     = Inr ''https://shop.example/product/abc123''
   \<and> product_url AllQR_generateAndDownloadQR (Some shop_location) ''abc123''
     = Inr ''https://shop.example/product/abc123''
   \<and> product_url QRCodeGenerator_generateQRCode None ''abc123''
     = Inr ''https://evershine-agent.vercel.app/product/abc123''"
proof -
  have t: "\<forall>loc. Some shop_location = Some loc \<longrightarrow> tuple_origin loc"
    by (simp add: shop_location_def tuple_origin_def)
  have n: "\<forall>loc. (None :: location option) = Some loc \<longrightarrow> tuple_origin loc"
    by simp
  have b: "buildProductUrl (Some shop_location) ''abc123'' = ''https://shop.example/product/abc123''"
    "buildProductUrl None ''abc123'' = ''https://evershine-agent.vercel.app/product/abc123''"
    by (simp_all add: buildProductUrl_def shop_location_def production_url_def)
  note with_window = qr_url_is_origin_product_path [OF t, of "''abc123''", THEN conjunct2, THEN conjunct2]
  note without_window = qr_url_is_origin_product_path [OF n, of "''abc123''", THEN conjunct2, THEN conjunct1]
  from with_window have "product_url site (Some shop_location) ''abc123''
      = Inr ''https://shop.example/product/abc123''" for site
    unfolding b by simp
  with without_window show ?thesis
    unfolding b by simp
qed

text \<open>
  C8 as stated fails: the product form encodes with margin 2 where the product list
  uses margin 1, and the plain download of the detail page encodes 300 pixels wide
  where the product list uses 200.
\<close>

theorem qr_options_differ_between_call_sites:
  "qr_margin (site_options ProductForm_generateQRCode) = 2
   \<and> qr_margin (site_options AllQR_generateAndDownloadQR) = 1
   \<and> qr_width (site_options ProductDetail_downloadSimpleQRCode) = 300
   \<and> qr_width (site_options AllQR_generateAndDownloadQR) = 200"
  by simp

text \<open>
  C8, as the code has it. At every place the options are literals: the dark colour is
  black and the light colour white, and no error-correction level is given; the width is
  200 pixels, but 300 for the plain download of the detail page, and the margin is 1,
  but 2 in the product form.
\<close>

theorem qr_options_fixed_per_call_site:
  "color_dark (site_options site) = ''#000000''
   \<and> color_light (site_options site) = ''#ffffff''
   \<and> errorCorrectionLevel (site_options site) = None
   \<and> qr_width (site_options site)
       = (if site = ProductDetail_downloadSimpleQRCode then 300 else 200)
   \<and> qr_margin (site_options site)
       = (if site = ProductForm_generateQRCode then 2 else 1)"
  by (cases site) simp_all

section \<open>The images of the product form\<close>

lemma validateImage_lists:
  "validateImage f st = (ok, st') \<Longrightarrow> images st' = images st \<and> previews st' = previews st"
  by (auto simp: validateImage_def split: if_splits)

lemma filter_valid_lists:
  "filter_valid fs st = (valid, st') \<Longrightarrow>
     images st' = images st \<and> previews st' = previews st \<and> length valid \<le> length fs"
proof (induction fs arbitrary: st valid st')
  case Nil
  then show ?case by simp
next
  case (Cons f fs)
  obtain ok st1 where v: "validateImage f st = (ok, st1)" by (cases "validateImage f st")
  obtain valid2 st2 where r: "filter_valid fs st1 = (valid2, st2)" by (cases "filter_valid fs st1")
  from Cons.prems v r have "st' = st2" "valid = (if ok then f # valid2 else valid2)"
    by (auto simp: Let_def)
  with Cons.IH [OF r] validateImage_lists [OF v] show ?case
    by auto
qed

lemma handleImageChange_rejects_wholesale:
  assumes "10 < length (images st) + length fileArray"
  shows "handleImageChange createObjectURL (Some fileArray) st
           = st\<lparr>message := Some (''You can only upload up to 10 images in total'', error)\<rparr>"
  using assms by (simp add: handleImageChange_def)

lemma handleImageChange_images:
  assumes "length (images st) \<le> 10"
  shows "length (images (handleImageChange createObjectURL files st)) \<le> 10"
proof (cases files)
  case None
  with assms show ?thesis by (simp add: handleImageChange_def)
next
  case (Some fileArray)
  obtain valid st1 where f: "filter_valid fileArray st = (valid, st1)"
    by (cases "filter_valid fileArray st")
  from filter_valid_lists [OF f] assms Some f show ?thesis
    by (auto simp: handleImageChange_def Let_def)
qed

lemma handleImageChange_lockstep:
  assumes "length (previews st) = length (images st)"
  shows "length (previews (handleImageChange createObjectURL files st))
           = length (images (handleImageChange createObjectURL files st))"
proof (cases files)
  case None
  with assms show ?thesis by (simp add: handleImageChange_def)
next
  case (Some fileArray)
  obtain valid st1 where f: "filter_valid fileArray st = (valid, st1)"
    by (cases "filter_valid fileArray st")
  from filter_valid_lists [OF f] assms Some f show ?thesis
    by (auto simp: handleImageChange_def Let_def)
qed

lemma length_splice1: "length (splice1 i xs) = (if i < length xs then length xs - 1 else length xs)"
  by (auto simp: splice1_def)

lemma removeImage_images:
  "length (images (removeImage mode initialImage index st)) \<le> length (images st)"
  by (auto simp: removeImage_def Let_def length_splice1)

text \<open>
  What holds in every reachable state: at most ten new files; and in create mode the
  previews are as many as the files, so at most ten as well.
\<close>

lemma reachable_images_bound:
  "reachable mode initialImage createObjectURL st \<Longrightarrow> length (images st) \<le> 10"
proof (induction rule: reachable.induct)
  case start
  show ?case by (simp add: initial_images_def)
next
  case (added st files)
  then show ?case by (simp add: handleImageChange_images)
next
  case (removed st index)
  then show ?case
    using removeImage_images [of mode initialImage index st] by linarith
qed

lemma reachable_create_previews_bound:
  assumes "reachable create initialImage createObjectURL st"
  shows "length (previews st) = length (images st) \<and> length (previews st) \<le> 10"
proof -
  have "length (previews st) = length (images st)"
    using assms
  proof (induction rule: reachable.induct)
    case start
    show ?case by (simp add: initial_images_def split: option.splits)
  next
    case (added st files)
    then show ?case by (simp add: handleImageChange_lockstep)
  next
    case (removed st index)
    then show ?case by (simp add: removeImage_def Let_def length_splice1)
  qed
  with reachable_images_bound [OF assms] show ?thesis by simp
qed

text \<open>
  C10 in edit mode. A product with five stored images is opened and ten valid files are
  chosen at once: the handler counts the new files only, accepts them without a
  message, and the form then shows fifteen previews.
\<close>

theorem edit_mode_previews_exceed_ten:
  "reachable edit (Some five_existing) blob_url
     (handleImageChange blob_url (Some ten_files) (initial_images edit (Some five_existing)))
   \<and> length (previews (handleImageChange blob_url (Some ten_files)
                          (initial_images edit (Some five_existing)))) = 15
   \<and> length (images (handleImageChange blob_url (Some ten_files)
                        (initial_images edit (Some five_existing)))) = 10
   \<and> message (handleImageChange blob_url (Some ten_files)
                 (initial_images edit (Some five_existing))) = None"
proof -
  have "reachable edit (Some five_existing) blob_url
     (handleImageChange blob_url (Some ten_files) (initial_images edit (Some five_existing)))"
    by (rule reachable.added) (rule reachable.start)
  moreover have "filter_valid ten_files (initial_images edit (Some five_existing))
                   = (ten_files, initial_images edit (Some five_existing))"
    by (simp add: ten_files_def png_file_def validateImage_def ACCEPTED_IMAGE_TYPES_def
          MAX_FILE_SIZE_def)
  ultimately show ?thesis
    by (simp add: handleImageChange_def initial_images_def five_existing_def)
       (simp add: ten_files_def)
qed

end
